theory Spec2Isabelle
  imports Main "HOL-Library.Sublist" "HOL-Library.AList"
begin

section \<open>Errors raised by the connectors\<close>

text \<open>
  Every exception class that the modelled functions raise is a constructor; the
  argument, where present, is the message the source passes. \<open>ResponseError\<close> is the
  \<^verbatim>\<open>Exception(response)\<close> of \<^verbatim>\<open>api_call_with_delay\<close>, carrying the error codes of the
  response.
\<close>

datatype error =
    ValueError string
  | TypeError string
  | Exception string
  | TimeoutError string
  | KeyError string
  | RequestException
  | OverflowError
  | IndexError
  | ClientError
  | PandasError
  | OSError
  | ResponseError "string option list"
  | JSONDecodeError
  | AttributeError string

text \<open>
  A \<^verbatim>\<open>for x in xs: call(x)\<close> loop whose body may raise: \<open>call\<close> returns the
  exception it raised, if any, and the first exception ends the loop. The result holds
  that exception and the elements for which \<open>call\<close> was invoked, in call order.
\<close>

fun for_each :: "('a \<Rightarrow> error option) \<Rightarrow> 'a list \<Rightarrow> error option \<times> 'a list" where
  "for_each call [] = (None, [])"
| "for_each call (x # rest) =
     (case call x of
        Some e \<Rightarrow> (Some e, [x])
      | None \<Rightarrow> (case for_each call rest of (r, called) \<Rightarrow> (r, x # called)))"


text \<open>
  A scripted vendor for concrete runs: call number \<open>n\<close> is answered by the \<open>n\<close>-th entry
  of the script and, once the script is used up, by \<open>final\<close> for ever.
\<close>

definition scripted :: "'a list \<Rightarrow> 'a \<Rightarrow> nat \<Rightarrow> 'a" where
  "scripted script final n = (if n < length script then script ! n else final)"

section \<open>Polling a report job (\<^verbatim>\<open>fetch_report_url\<close>)\<close>

text \<open>
  The outcome of one HTTP call: \<open>Request_failed\<close> stands for \<^verbatim>\<open>requests\<close> raising a
  \<^verbatim>\<open>RequestException\<close> (connection error, \<^verbatim>\<open>raise_for_status\<close> on a 4xx/5xx reply,
  or a body that is not JSON); \<open>Json j\<close> is a 2xx reply with the decoded body \<open>j\<close>.
\<close>

datatype 'a reply = Request_failed | Json 'a

text \<open>
  The JSON value found under the key that holds the download location: a string, a list
  (of strings), or a value of any other type.
\<close>

datatype json_urls = JStr string | JList "string list" | JOther

text \<open>
  What one iteration of the polling loop does with the decoded status reply: return from
  the function, raise, or fall through to \<^verbatim>\<open>retries += 1; time.sleep(...)\<close>.
\<close>

datatype 'a step = Return 'a | Raise error | Continue

text \<open>
  The loop shared, line by line, by the three \<^verbatim>\<open>fetch_report_url\<close> methods:
  \<^verbatim>\<open>
  retries = 0
  while retries < max_retries:
      response = requests.get(url, headers=headers)
      response.raise_for_status()
      response_json = response.json()
      <body: return / raise / fall through>
      retries += 1
      time.sleep(...)
  raise TimeoutError("Timeout: Report not generated within specified retries.")
  \<close>
  \<open>get n\<close> is the vendor's reply to the status GET number \<open>n\<close> (counted from 0) for the
  job polled, and \<open>polls\<close> counts the status GETs issued so far; the result carries the
  final count.
\<close>

abbreviation poll_timeout :: error where
  "poll_timeout \<equiv> TimeoutError ''Timeout: Report not generated within specified retries.''"

function poll_loop ::
  "('j \<Rightarrow> 'a step) \<Rightarrow> nat \<Rightarrow> (nat \<Rightarrow> 'j reply) \<Rightarrow> nat \<Rightarrow> nat \<Rightarrow> (error + 'a) \<times> nat" where
  "poll_loop body max_retries get retries polls =
     (if retries < max_retries then
        (case get polls of
           Request_failed \<Rightarrow> (Inl RequestException, Suc polls)
         | Json response_json \<Rightarrow>
             (case body response_json of
                Return x \<Rightarrow> (Inr x, Suc polls)
              | Raise e \<Rightarrow> (Inl e, Suc polls)
              | Continue \<Rightarrow> poll_loop body max_retries get (Suc retries) (Suc polls)))
      else (Inl poll_timeout, polls))"
  by pat_completeness auto
termination
  by (relation "measure (\<lambda>(b, m, g, r, p). m - r)") auto

declare poll_loop.simps [simp del]

subsection \<open>Amazon Ads (\<^verbatim>\<open>AmazonAdvertisingReportProcessor\<close>)\<close>

record ads_status_json =
  ads_status :: "string option"
  ads_url :: "json_urls option"

text \<open>
  The list handling after a success status, shared by the Amazon Ads and Instacart
  bodies: \<^verbatim>\<open>response_json.get(key, [])\<close>, wrap a string into a list, raise
  \<^verbatim>\<open>TypeError\<close> for any other non-list, raise for an empty list.
\<close>

definition report_urls_of :: "json_urls option \<Rightarrow> string list step" where
  "report_urls_of v =
     (case (case v of None \<Rightarrow> JList [] | Some u \<Rightarrow> u) of
        JStr s \<Rightarrow> Return [s]
      | JList l \<Rightarrow>
          (if l = [] then Raise (Exception ''No URLs found in the response.'') else Return l)
      | JOther \<Rightarrow> Raise (TypeError ''Expected 'url' to be a list or a single string.''))"

definition ads_poll_body :: "ads_status_json \<Rightarrow> string list step" where
  "ads_poll_body response_json =
     (if ads_status response_json = Some ''COMPLETED'' then report_urls_of (ads_url response_json)
      else if ads_status response_json = Some ''FAILURE''
        then Raise (Exception ''Report generation failed.'')
      else Continue)"

definition ads_fetch_report_url ::
  "(nat \<Rightarrow> ads_status_json reply) \<Rightarrow> string \<Rightarrow> (error + string list) \<times> nat" where
  "ads_fetch_report_url get report_id = poll_loop ads_poll_body 15 get 0 0"


subsection \<open>Instacart (\<^verbatim>\<open>InstaCartReportProcessor\<close>)\<close>

text \<open>The \<^verbatim>\<open>attributes\<close> object of the reply's \<^verbatim>\<open>data\<close>.\<close>

record instacart_attributes =
  ic_status :: "string option"
  ic_s3_location :: "json_urls option"

definition instacart_poll_body :: "instacart_attributes \<Rightarrow> string list step" where
  "instacart_poll_body response_json =
     (if ic_status response_json = Some ''completed''
        then report_urls_of (ic_s3_location response_json)
      else if ic_status response_json = Some ''FAILURE''
        then Raise (Exception ''Report generation failed.'')
      else Continue)"

definition instacart_fetch_report_url ::
  "(nat \<Rightarrow> instacart_attributes reply) \<Rightarrow> string \<Rightarrow> (error + string list) \<times> nat" where
  "instacart_fetch_report_url get report_id =
     poll_loop instacart_poll_body 15 get 0 0"

subsection \<open>Amazon Marketing Cloud (\<^verbatim>\<open>AmazonMarketingCloudAPI\<close>)\<close>

text \<open>
  The status reply; the code reads only \<^verbatim>\<open>status\<close>. \<open>amc_url\<close> is a \<^verbatim>\<open>url\<close> entry the
  reply may carry, which the code never looks at.
\<close>

record amc_status_json =
  amc_status :: "string option"
  amc_url :: "json_urls option"

text \<open>
  The dictionary \<^verbatim>\<open>self.wf_status\<close>: \<open>None\<close> in a field is a key that is absent or
  holds \<^verbatim>\<open>None\<close>. It is \<^verbatim>\<open>{}\<close> after \<^verbatim>\<open>__init__\<close>.
\<close>

record wf_status =
  workflowID :: "string option"
  date :: "string option"
  report_type :: "string option"
  status :: "string option"

definition download_urls_endpoint :: "string \<Rightarrow> string \<Rightarrow> string \<Rightarrow> string" where
  "download_urls_endpoint report_url instance_id report_id =
     report_url @ ''/amc/reporting/'' @ instance_id @ ''/workflowExecutions/'' @ report_id
       @ ''/downloadUrls''"

text \<open>
  The body returns the URL list together with the new value of \<^verbatim>\<open>self.wf_status\<close>
  (\<open>None\<close>: not assigned). On \<^verbatim>\<open>SUCCEEDED\<close> the variable \<^verbatim>\<open>report_urls\<close> is the string
  \<^verbatim>\<open>url\<close> built before the loop, so it is wrapped into a one-element list and neither
  the \<^verbatim>\<open>TypeError\<close> nor the empty-list branch can be taken.
\<close>

definition amc_poll_body ::
  "string \<Rightarrow> string \<Rightarrow> amc_status_json \<Rightarrow> (string list \<times> wf_status option) step" where
  "amc_poll_body url report_id response_json =
     (if amc_status response_json = Some ''SUCCEEDED'' then Return ([url], None)
      else if amc_status response_json = Some ''FAILURE''
            \<or> amc_status response_json = Some ''REJECTED''
        then Return ([''''],
               Some \<lparr>workflowID = Some report_id, date = None, report_type = None,
                     status = amc_status response_json\<rparr>)
      else Continue)"

definition amc_fetch_report_url ::
  "string \<Rightarrow> string \<Rightarrow> (nat \<Rightarrow> amc_status_json reply) \<Rightarrow> string
     \<Rightarrow> (error + string list \<times> wf_status option) \<times> nat" where
  "amc_fetch_report_url report_url instance_id get report_id =
     poll_loop (amc_poll_body (download_urls_endpoint report_url instance_id report_id) report_id)
       10 get 0 0"












section \<open>Historical-file rotation (\<^verbatim>\<open>AWSConnection.move_previous_csv_to_processed_folder\<close>)\<close>

subsection \<open>Strings\<close>

text \<open>
  \<^verbatim>\<open>s.split(sep)\<close> for a one-character separator (the result is never empty) and
  \<^verbatim>\<open>sep.join(parts)\<close>.
\<close>

fun str_split :: "char \<Rightarrow> string \<Rightarrow> string list" where
  "str_split sep [] = ['''']"
| "str_split sep (c # cs) =
     (if c = sep then [] # str_split sep cs
      else (case str_split sep cs of
              [] \<Rightarrow> [c # '''']
            | part # parts \<Rightarrow> (c # part) # parts))"

fun str_join :: "string \<Rightarrow> string list \<Rightarrow> string" where
  "str_join sep [] = []"
| "str_join sep [part] = part"
| "str_join sep (part # next_part # parts) = part @ sep @ str_join sep (next_part # parts)"

subsection \<open>The bucket\<close>

text \<open>
  An S3 bucket is the list of its objects, key and body, in listing order.
  \<^verbatim>\<open>put_object\<close> replaces the body under an existing key or adds the object;
  \<^verbatim>\<open>delete_object\<close> removes the key. The calls that change the bucket are logged.
\<close>

type_synonym bucket = "(string \<times> string) list"

definition get_object :: "bucket \<Rightarrow> string \<Rightarrow> string option" where
  "get_object b key = map_of b key"

definition put_object :: "string \<Rightarrow> string \<Rightarrow> bucket \<Rightarrow> bucket" where
  "put_object key body b = AList.update key body b"

definition delete_object :: "string \<Rightarrow> bucket \<Rightarrow> bucket" where
  "delete_object key b = AList.delete key b"

datatype s3_call = Put_object string string | Delete_object string

text \<open>
  What may fail inside the loop: \<open>to_parquet\<close> is \<^verbatim>\<open>pd.read_csv\<close> followed by
  \<^verbatim>\<open>df.to_parquet()\<close> on an object's body; \<open>put_error\<close> and \<open>delete_error\<close> give the
  exception that \<^verbatim>\<open>put_object\<close> and \<^verbatim>\<open>delete_object\<close> raise for a key, if any.
\<close>

record s3_world =
  to_parquet :: "string \<Rightarrow> error + string"
  put_error :: "string \<Rightarrow> error option"
  delete_error :: "string \<Rightarrow> error option"

record rotation_outcome =
  rotation_raised :: "error option"
  bucket_after :: bucket
  s3_calls :: "s3_call list"

subsection \<open>The method\<close>

definition table_prefix :: "string \<Rightarrow> string \<Rightarrow> string \<Rightarrow> string \<Rightarrow> string" where
  "table_prefix root_folder source_name country_code table_name =
     root_folder @ ''/'' @ source_name @ ''/'' @ country_code @ ''/'' @ table_name @ ''/''"

text \<open>\<^verbatim>\<open>key.split('.')[0].split('_')[-1]\<close>\<close>

definition date_of :: "string \<Rightarrow> string" where
  "date_of key = last (str_split CHR ''_'' (hd (str_split CHR ''.'' key)))"

text \<open>The list comprehension that selects the files to move, \<open>pfx\<close> being the table's prefix.\<close>

definition file_list_of :: "string \<Rightarrow> string list \<Rightarrow> bucket \<Rightarrow> string list" where
  "file_list_of pfx date_list b =
     filter (\<lambda>key. \<not> prefix (pfx @ ''processed'') key
                  \<and> prefix pfx key
                  \<and> date_of key \<notin> set date_list
                  \<and> suffix ''.csv'' key)
       (map fst b)"

text \<open>\<^verbatim>\<open>'.'.join(split_path.pop(-1).split('.')[:-1])\<close> with \<^verbatim>\<open>split_path = file_to_move.split("/")\<close>\<close>

definition csv_name_of :: "string \<Rightarrow> string" where
  "csv_name_of file_to_move =
     str_join ''.'' (butlast (str_split CHR ''.'' (last (str_split CHR ''/'' file_to_move))))"

definition parquet_key :: "string \<Rightarrow> string \<Rightarrow> string" where
  "parquet_key pfx file_to_move = pfx @ ''processed/'' @ csv_name_of file_to_move @ ''.parquet''"

text \<open>
  The \<^verbatim>\<open>for file_to_move in file_list\<close> loop: read, convert, put, delete. An exception
  ends the loop and leaves the bucket as it is at that moment.
\<close>

fun move_files :: "s3_world \<Rightarrow> string \<Rightarrow> string list \<Rightarrow> bucket \<Rightarrow> rotation_outcome" where
  "move_files w pfx [] b = \<lparr>rotation_raised = None, bucket_after = b, s3_calls = []\<rparr>"
| "move_files w pfx (file_to_move # rest) b =
     (case get_object b file_to_move of
        None \<Rightarrow> \<lparr>rotation_raised = Some ClientError, bucket_after = b, s3_calls = []\<rparr>
      | Some obj \<Rightarrow>
          (case to_parquet w obj of
             Inl e \<Rightarrow> \<lparr>rotation_raised = Some e, bucket_after = b, s3_calls = []\<rparr>
           | Inr parquet \<Rightarrow>
               (case put_error w (parquet_key pfx file_to_move) of
                  Some e \<Rightarrow> \<lparr>rotation_raised = Some e, bucket_after = b, s3_calls = []\<rparr>
                | None \<Rightarrow>
                    (let b1 = put_object (parquet_key pfx file_to_move) parquet b;
                         put = Put_object (parquet_key pfx file_to_move) parquet
                     in case delete_error w file_to_move of
                          Some e \<Rightarrow>
                            \<lparr>rotation_raised = Some e, bucket_after = b1, s3_calls = [put]\<rparr>
                        | None \<Rightarrow>
                            (let r = move_files w pfx rest (delete_object file_to_move b1)
                             in r\<lparr>s3_calls := put # Delete_object file_to_move # s3_calls r\<rparr>)))))"

definition move_previous_csv_to_processed_folder ::
  "s3_world \<Rightarrow> string \<Rightarrow> string \<Rightarrow> string list \<Rightarrow> string \<Rightarrow> string \<Rightarrow> bucket \<Rightarrow> rotation_outcome" where
  "move_previous_csv_to_processed_folder w root_folder country_code date_list source_name
       table_name b =
     (let pfx = table_prefix root_folder source_name country_code table_name
      in move_files w pfx (file_list_of pfx date_list b) b)"

subsection \<open>Notions used to state the rotation properties\<close>

text \<open>
  The files the rotation is meant for: \<^verbatim>\<open>.csv\<close> objects under the table's prefix that
  are not under its \<^verbatim>\<open>processed/\<close> sub-prefix and whose date is not in the batch.
\<close>

definition rotation_candidate :: "string \<Rightarrow> string list \<Rightarrow> string \<Rightarrow> bool" where
  "rotation_candidate pfx date_list key =
     (suffix ''.csv'' key \<and> prefix pfx key \<and> \<not> prefix (pfx @ ''processed/'') key
      \<and> date_of key \<notin> set date_list)"

text \<open>The Parquet body made from an object of the bucket (empty where there is none).\<close>

definition parquet_of :: "s3_world \<Rightarrow> bucket \<Rightarrow> string \<Rightarrow> string" where
  "parquet_of w b key =
     (case map_of b key of
        None \<Rightarrow> []
      | Some obj \<Rightarrow> (case to_parquet w obj of Inl e \<Rightarrow> [] | Inr parquet \<Rightarrow> parquet))"

text \<open>
  Every file of the list has an object in the bucket that converts, and neither its
  \<^verbatim>\<open>put_object\<close> nor its \<^verbatim>\<open>delete_object\<close> raises.
\<close>

definition all_succeed :: "s3_world \<Rightarrow> string \<Rightarrow> bucket \<Rightarrow> string list \<Rightarrow> bool" where
  "all_succeed w pfx b files =
     list_all (\<lambda>k. (case map_of b k of
                        None \<Rightarrow> False
                      | Some obj \<Rightarrow> (case to_parquet w obj of Inl e \<Rightarrow> False | Inr p \<Rightarrow> True))
                   \<and> put_error w (parquet_key pfx k) = None \<and> delete_error w k = None) files"

text \<open>
  Convert-then-delete on a log of calls: the log is a sequence of pairs, a
  \<^verbatim>\<open>put_object\<close> of a file's Parquet key followed by the \<^verbatim>\<open>delete_object\<close> of that file,
  possibly ended by a \<^verbatim>\<open>put_object\<close> whose delete did not happen.
\<close>

fun convert_then_delete :: "string \<Rightarrow> s3_call list \<Rightarrow> bool" where
  "convert_then_delete pfx [] = True"
| "convert_then_delete pfx [Put_object key body] = True"
| "convert_then_delete pfx (Put_object key body # Delete_object file # rest) =
     (key = parquet_key pfx file \<and> convert_then_delete pfx rest)"
| "convert_then_delete pfx (c # rest) = False"

text \<open>For concrete runs: a world in which nothing fails, and one where conversion fails.\<close>

definition s3_world_ok :: s3_world where
  "s3_world_ok =
     \<lparr>to_parquet = (\<lambda>csv. Inr (''PAR1'' @ csv)),
      put_error = (\<lambda>key. None),
      delete_error = (\<lambda>key. None)\<rparr>"

definition s3_world_bad_csv :: s3_world where
  "s3_world_bad_csv = s3_world_ok\<lparr>to_parquet := (\<lambda>csv. Inl PandasError)\<rparr>"

text \<open>
  A bucket for concrete runs: two daily files of table \<^verbatim>\<open>T\<close> and the Parquet copy of the
  first one, left by an earlier rotation.
\<close>

definition example_bucket :: bucket where
  "example_bucket =
     [(''de/avc/US/T/T_2024-01-01.csv'', ''a,b''),
      (''de/avc/US/T/T_2024-01-02.csv'', ''c,d''),
      (''de/avc/US/T/processed/T_2024-01-01.parquet'', ''old'')]"

text \<open>A bucket holding one daily file of a table whose name begins with \<^verbatim>\<open>processed\<close>.\<close>

definition processed_orders_bucket :: bucket where
  "processed_orders_bucket =
     [(''de/avc/US/processed_orders/processed_orders_2024-01-01.csv'', ''a,b'')]"

section \<open>Creating a report job\<close>

subsection \<open>Amazon Ads and Amazon Marketing Cloud (\<^verbatim>\<open>create_report_request\<close>)\<close>

text \<open>
  \<^verbatim>\<open>report_config\<close> is a dictionary, modelled by its list of key-value pairs (the empty
  list also stands for \<^verbatim>\<open>None\<close>: both are falsy); the empty string also stands for a
  \<^verbatim>\<open>report_type\<close> of \<^verbatim>\<open>None\<close>. \<open>post n\<close> is the vendor's reply to the creation POST
  number \<open>n\<close>, reduced to the job id field of its body. The result carries the number
  of POSTs issued.
\<close>

definition ads_payload_keys :: "string list" where
  "ads_payload_keys =
     [''name'', ''adProduct'', ''groupBy'', ''columns'', ''reportTypeId'', ''timeUnit'', ''format'']"

definition ads_create_report_request ::
  "string \<Rightarrow> (string \<times> string) list \<Rightarrow> (nat \<Rightarrow> string option reply) \<Rightarrow> (error + string) \<times> nat" where
  "ads_create_report_request rtype report_config post =
     (if rtype = [] then (Inl (ValueError ''Report type parameter is missing.''), 0)
      else if report_config = []
        then (Inl (ValueError (''No configuration found for report: '' @ rtype)), 0)
      else
        (case find (\<lambda>k. map_of report_config k = None) ads_payload_keys of
           Some k \<Rightarrow> (Inl (KeyError k), 0)
         | None \<Rightarrow>
             (case post 0 of
                Request_failed \<Rightarrow> (Inl RequestException, 1)
              | Json None \<Rightarrow> (Inl (Exception ''Report ID not returned in response.''), 1)
              | Json (Some report_id) \<Rightarrow>
                  (if report_id = []
                   then (Inl (Exception ''Report ID not returned in response.''), 1)
                   else (Inr report_id, 1)))))"

definition amc_create_report_request ::
  "string \<Rightarrow> (string \<times> string) list \<Rightarrow> (nat \<Rightarrow> string option reply) \<Rightarrow> (error + string) \<times> nat" where
  "amc_create_report_request rtype report_config post =
     (if rtype = [] then (Inl (ValueError ''Report type parameter is missing.''), 0)
      else if report_config = []
        then (Inl (ValueError (''No configuration found for report: '' @ rtype)), 0)
      else
        (case map_of report_config ''query'' of
           None \<Rightarrow> (Inl (KeyError ''query''), 0)
         | Some query \<Rightarrow>
             (case post 0 of
                Request_failed \<Rightarrow> (Inl RequestException, 1)
              | Json None \<Rightarrow> (Inl (Exception ''Report ID not returned in response.''), 1)
              | Json (Some report_id) \<Rightarrow>
                  (if report_id = []
                   then (Inl (Exception ''Report ID not returned in response.''), 1)
                   else (Inr report_id, 1)))))"

subsection \<open>Amazon Vendor Central (\<^verbatim>\<open>api_call_with_delay\<close>, \<^verbatim>\<open>get_report_from_avc\<close>)\<close>

text \<open>
  The dictionary returned by \<^verbatim>\<open>call_aws_rest_api\<close>: \<open>errors\<close> is \<open>None\<close> when the key
  \<^verbatim>\<open>errors\<close> is absent, else the list of the entries' \<^verbatim>\<open>code\<close> values (\<open>None\<close> for an
  entry without a code).
\<close>

record avc_response =
  errors :: "string option list option"
  reportId :: "string option"

text \<open>
  \<^verbatim>\<open>
  while True:
      response = self.call_aws_rest_api(...)
      if 'errors' in response.keys() and response['errors'][0]['code'] == 'QuotaExceeded':
          sleep(delay)
      elif 'errors' in response.keys():
          raise Exception(response)
      else:
          return response
  \<close>
  The loop has no bound, so the model is a partial function: \<open>None\<close> is a run that never
  returns. \<open>call n\<close> is the outcome of call number \<open>n\<close> of \<^verbatim>\<open>call_aws_rest_api\<close>, and
  \<open>calls\<close> counts the calls issued so far; the result carries the final count.
\<close>

partial_function (option) api_call_with_delay ::
  "(nat \<Rightarrow> avc_response reply) \<Rightarrow> nat \<Rightarrow> ((error + avc_response) \<times> nat) option" where
  "api_call_with_delay call calls =
     (case call calls of
        Request_failed \<Rightarrow> Some (Inl RequestException, Suc calls)
      | Json response \<Rightarrow>
          (case errors response of
             None \<Rightarrow> Some (Inr response, Suc calls)
           | Some [] \<Rightarrow> Some (Inl IndexError, Suc calls)
           | Some (None # _) \<Rightarrow> Some (Inl (KeyError ''code''), Suc calls)
           | Some (Some code # rest) \<Rightarrow>
               if code = ''QuotaExceeded'' then api_call_with_delay call (Suc calls)
               else Some (Inl (ResponseError (Some code # rest)), Suc calls)))"

text \<open>
  The creation step of \<^verbatim>\<open>get_report_from_avc\<close>: the POST goes through
  \<^verbatim>\<open>api_call_with_delay\<close>, then \<^verbatim>\<open>create_report_response["reportId"]\<close> is read.
\<close>

definition avc_create_report ::
  "(nat \<Rightarrow> avc_response reply) \<Rightarrow> ((error + string) \<times> nat) option" where
  "avc_create_report post =
     (case api_call_with_delay post 0 of
        None \<Rightarrow> None
      | Some (Inl e, posts) \<Rightarrow> Some (Inl e, posts)
      | Some (Inr create_report_response, posts) \<Rightarrow>
          (case reportId create_report_response of
             None \<Rightarrow> Some (Inl (KeyError ''reportId''), posts)
           | Some report_id \<Rightarrow> Some (Inr report_id, posts)))"

text \<open>The condition under which the loop sleeps and calls again.\<close>

fun quota_exceeded :: "avc_response reply \<Rightarrow> bool" where
  "quota_exceeded Request_failed = False"
| "quota_exceeded (Json response) =
     (case errors response of
        Some (Some code # _) \<Rightarrow> code = ''QuotaExceeded''
      | _ \<Rightarrow> False)"

section \<open>Fetching, converting and uploading a report (\<^verbatim>\<open>report_processor\<close>)\<close>

subsection \<open>Strings\<close>

text \<open>\<^verbatim>\<open>str.lower\<close> on ASCII text.\<close>

definition lower_char :: "char \<Rightarrow> char" where
  "lower_char c =
     (case map_of (zip ''ABCDEFGHIJKLMNOPQRSTUVWXYZ'' ''abcdefghijklmnopqrstuvwxyz'') c of
        Some l \<Rightarrow> l
      | None \<Rightarrow> c)"

definition lower :: "string \<Rightarrow> string" where
  "lower s = map lower_char s"

text \<open>
  \<^verbatim>\<open>s.replace(old, new)\<close>: every non-overlapping occurrence of \<open>old\<close>, from the left.
  The source calls it with \<^verbatim>\<open>'.gz'\<close> and \<^verbatim>\<open>'.orc'\<close> only; an empty \<open>old\<close> is not needed
  and leaves the string as it is here.
\<close>

function replace :: "string \<Rightarrow> string \<Rightarrow> string \<Rightarrow> string" where
  "replace old new [] = []"
| "replace old new (c # cs) =
     (if old \<noteq> [] \<and> prefix old (c # cs)
      then new @ replace old new (drop (length old) (c # cs))
      else c # replace old new cs)"
  by pat_completeness auto
termination
  by (relation "measure (\<lambda>(old, new, s). length s)") auto

subsection \<open>The world outside the function\<close>

text \<open>
  The library and network calls of \<^verbatim>\<open>fetch_report_data\<close> are the fields of \<open>world\<close>:
  \<^item> \<open>urlparse_path\<close>: \<^verbatim>\<open>urlparse(url).path\<close>;
  \<^item> \<open>http_get\<close>: \<^verbatim>\<open>requests.get\<close> followed by \<^verbatim>\<open>raise_for_status\<close>, giving the content;
  \<^item> \<open>temp_name\<close>: the fresh path chosen by \<^verbatim>\<open>NamedTemporaryFile\<close>, without the suffix;
  \<^item> \<open>gunzip\<close>: the decompression done by \<^verbatim>\<open>gzip.open\<close> and \<^verbatim>\<open>copyfileobj\<close>;
  \<^item> \<open>json_load\<close>: \<^verbatim>\<open>json.load\<close> (the parsed value is kept as text);
  \<^item> \<open>json_to_csv\<close>: \<^verbatim>\<open>pd.json_normalize\<close> and \<^verbatim>\<open>to_csv\<close>, giving the CSV text;
  \<^item> \<open>orc_to_csv\<close>: \<^verbatim>\<open>orc.read_table\<close>, \<^verbatim>\<open>to_pandas\<close> and \<^verbatim>\<open>to_csv\<close>;
  \<^item> \<open>s3_upload_file\<close>: building the key and \<^verbatim>\<open>s3.upload_file\<close> of a file's content.
  Each may raise. The file system is a map from paths to contents; directories and
  failing writes are not modelled.
\<close>

record world =
  urlparse_path :: "string \<Rightarrow> string"
  http_get :: "string \<Rightarrow> string reply"
  temp_name :: string
  gunzip :: "string \<Rightarrow> error + string"
  json_load :: "string \<Rightarrow> error + string"
  json_to_csv :: "string \<Rightarrow> error + string"
  orc_to_csv :: "string \<Rightarrow> error + string"
  s3_upload_file :: "string \<Rightarrow> error option"

type_synonym files = "string \<rightharpoonup> string"

subsection \<open>The helper functions\<close>

text \<open>
  \<^verbatim>\<open>decompress_file\<close> opens the output file before any byte is decompressed, so the
  decompressed file exists (empty here) when decompression raises.
\<close>

definition decompress_file :: "world \<Rightarrow> string \<Rightarrow> files \<Rightarrow> (error + string) \<times> files" where
  "decompress_file w file_path fs =
     (let decompressed_path = replace ''.gz'' '''' file_path in
      case fs file_path of
        None \<Rightarrow> (Inl OSError, fs)
      | Some compressed \<Rightarrow>
          (case gunzip w compressed of
             Inl e \<Rightarrow> (Inl e, fs(decompressed_path \<mapsto> ''''))
           | Inr plain \<Rightarrow> (Inr decompressed_path, fs(decompressed_path \<mapsto> plain))))"

definition load_json :: "world \<Rightarrow> string \<Rightarrow> files \<Rightarrow> error + string" where
  "load_json w file_path fs =
     (case fs file_path of
        None \<Rightarrow> Inl OSError
      | Some text \<Rightarrow> json_load w text)"

definition convert_json_to_csv :: "world \<Rightarrow> string \<Rightarrow> files \<Rightarrow> (error + string) \<times> files" where
  "convert_json_to_csv w json_data fs =
     (let csv_filename = ''/tmp/report.csv'' in
      case json_to_csv w json_data of
        Inl e \<Rightarrow> (Inl e, fs)
      | Inr csv \<Rightarrow> (Inr csv_filename, fs(csv_filename \<mapsto> csv)))"

definition convert_orc_to_csv :: "world \<Rightarrow> string \<Rightarrow> files \<Rightarrow> (error + string) \<times> files" where
  "convert_orc_to_csv w file_path fs =
     (case fs file_path of
        None \<Rightarrow> (Inl OSError, fs)
      | Some buf \<Rightarrow>
          (case orc_to_csv w buf of
             Inl e \<Rightarrow> (Inl e, fs)
           | Inr csv \<Rightarrow>
               (let csv_filename = replace ''.orc'' ''.csv'' file_path
                in (Inr csv_filename, fs(csv_filename \<mapsto> csv)))))"

text \<open>
  \<^verbatim>\<open>upload_to_destination\<close> applied to a local file; on success the result is the
  content that was uploaded.
\<close>

definition upload_file_to_destination :: "world \<Rightarrow> string \<Rightarrow> files \<Rightarrow> error + string" where
  "upload_file_to_destination w file_path fs =
     (case fs file_path of
        None \<Rightarrow> Inl OSError
      | Some content \<Rightarrow>
          (case s3_upload_file w content of
             Some e \<Rightarrow> Inl e
           | None \<Rightarrow> Inr content))"

fun cleanup_files :: "string list \<Rightarrow> files \<Rightarrow> files" where
  "cleanup_files [] fs = fs"
| "cleanup_files (file_path # rest) fs =
     cleanup_files rest (if fs file_path \<noteq> None then fs(file_path := None) else fs)"

subsection \<open>\<^verbatim>\<open>fetch_report_data\<close>\<close>

text \<open>
  The result: the exception re-raised to the caller (if any), the file system left
  behind, the URLs downloaded and the file contents uploaded.
\<close>

record fetch_outcome =
  failure :: "error option"
  files_after :: files
  fetched :: "string list"
  uploaded :: "string list"

definition file_extension_of :: "string \<Rightarrow> string option" where
  "file_extension_of path =
     (if suffix ''.orc'' path then Some ''.orc''
      else if suffix ''.gz'' path then Some ''.gz''
      else if suffix ''.csv'' path then Some ''.csv''
      else None)"

text \<open>
  The branch on the file type, after the download has been saved: it yields the CSV
  file's name and the temporary files to clean up, or the exception raised.
\<close>

definition process_by_type ::
  "world \<Rightarrow> string \<Rightarrow> string \<Rightarrow> files \<Rightarrow> (error + string \<times> string list) \<times> files" where
  "process_by_type w file_extension local_filename_with_extension fs =
     (if file_extension = ''.gz'' then
        (case decompress_file w local_filename_with_extension fs of
           (Inl e, fs1) \<Rightarrow> (Inl e, fs1)
         | (Inr decompressed_filename, fs1) \<Rightarrow>
             (case load_json w decompressed_filename fs1 of
                Inl e \<Rightarrow> (Inl e, fs1)
              | Inr report_data \<Rightarrow>
                  (case convert_json_to_csv w report_data fs1 of
                     (Inl e, fs2) \<Rightarrow> (Inl e, fs2)
                   | (Inr csv_filename, fs2) \<Rightarrow>
                       (Inr (csv_filename,
                             [local_filename_with_extension, decompressed_filename, csv_filename]),
                        fs2))))
      else if file_extension = ''.orc'' then
        (case convert_orc_to_csv w local_filename_with_extension fs of
           (Inl e, fs1) \<Rightarrow> (Inl e, fs1)
         | (Inr csv_filename, fs1) \<Rightarrow>
             (Inr (csv_filename, [local_filename_with_extension, csv_filename]), fs1))
      else if file_extension = ''.csv'' then
        (Inr (local_filename_with_extension,
              [local_filename_with_extension, local_filename_with_extension]), fs)
      else (Inl (ValueError ''Unsupported file format''), fs))"

definition fetch_report_data :: "world \<Rightarrow> string \<Rightarrow> files \<Rightarrow> fetch_outcome" where
  "fetch_report_data w report_url fs =
     (case file_extension_of (lower (urlparse_path w report_url)) of
        None \<Rightarrow>
          \<lparr>failure = Some (ValueError ''Could not determine file extension from URL''),
           files_after = fs, fetched = [], uploaded = []\<rparr>
      | Some file_extension \<Rightarrow>
          (case http_get w report_url of
             Request_failed \<Rightarrow>
               \<lparr>failure = Some RequestException, files_after = fs, fetched = [report_url],
                uploaded = []\<rparr>
           | Json content \<Rightarrow>
               (let local_filename_with_extension = temp_name w @ file_extension;
                    fs1 = fs(local_filename_with_extension \<mapsto> content)
                in case process_by_type w file_extension local_filename_with_extension fs1 of
                     (Inl e, fs2) \<Rightarrow>
                       \<lparr>failure = Some e, files_after = fs2, fetched = [report_url],
                        uploaded = []\<rparr>
                   | (Inr (csv_filename, temporary), fs2) \<Rightarrow>
                       (case upload_file_to_destination w csv_filename fs2 of
                          Inl e \<Rightarrow>
                            \<lparr>failure = Some e, files_after = fs2, fetched = [report_url],
                             uploaded = []\<rparr>
                        | Inr content_sent \<Rightarrow>
                            \<lparr>failure = None, files_after = cleanup_files temporary fs2,
                             fetched = [report_url], uploaded = [content_sent]\<rparr>))))"

text \<open>
  For concrete runs, \<^verbatim>\<open>urlparse(url).path\<close> for a URL of the shape
  \<^verbatim>\<open>scheme://netloc/path;params?query#fragment\<close> or one with no \<^verbatim>\<open>://\<close> at all: the
  network location ends at the first \<^verbatim>\<open>/\<close>, \<^verbatim>\<open>?\<close> or \<^verbatim>\<open>#\<close>, the path at the first
  \<^verbatim>\<open>?\<close> or \<^verbatim>\<open>#\<close>, and the parameters of the last path segment are cut off. The
  world \<open>world_ok\<close> is one in which every call succeeds.
\<close>

fun after_scheme :: "string \<Rightarrow> string option" where
  "after_scheme (a # b # c # rest) =
     (if [a, b, c] = ''://'' then Some rest else after_scheme (b # c # rest))"
| "after_scheme s = None"

definition without_params :: "string \<Rightarrow> string" where
  "without_params path =
     (let segments = str_split CHR ''/'' path
      in str_join ''/'' (butlast segments @ [takeWhile (\<lambda>c. c \<noteq> CHR '';'') (last segments)]))"

definition plain_url_path :: "string \<Rightarrow> string" where
  "plain_url_path u =
     (let after_netloc =
            (case after_scheme u of
               None \<Rightarrow> u
             | Some rest \<Rightarrow>
                 dropWhile (\<lambda>c. c \<noteq> CHR ''/'' \<and> c \<noteq> CHR ''?'' \<and> c \<noteq> CHR ''#'') rest)
      in without_params (takeWhile (\<lambda>c. c \<noteq> CHR ''?'' \<and> c \<noteq> CHR ''#'') after_netloc))"

definition world_ok :: world where
  "world_ok =
     \<lparr>urlparse_path = plain_url_path,
      http_get = (\<lambda>u. Json ''bytes''),
      temp_name = ''/tmp/tmpq1w2e3'',
      gunzip = (\<lambda>b. Inr ''[{}]''),
      json_load = (\<lambda>t. Inr t),
      json_to_csv = (\<lambda>j. Inr ''a,b''),
      orc_to_csv = (\<lambda>b. Inr ''a,b''),
      s3_upload_file = (\<lambda>c. None)\<rparr>"

text \<open>
  The temporary files of an invocation, by file extension: the downloaded file, and
  the decompressed file and the generated CSV where there are any.
\<close>

definition temporary_files :: "world \<Rightarrow> string \<Rightarrow> string list" where
  "temporary_files w file_extension =
     (if file_extension = ''.gz'' then
        [temp_name w @ ''.gz'', replace ''.gz'' '''' (temp_name w @ ''.gz''), ''/tmp/report.csv'']
      else if file_extension = ''.orc'' then
        [temp_name w @ ''.orc'', replace ''.orc'' ''.csv'' (temp_name w @ ''.orc'')]
      else [temp_name w @ file_extension])"

definition no_files :: files where
  "no_files = Map.empty"

definition world_upload_fails :: world where
  "world_upload_fails = world_ok\<lparr>s3_upload_file := (\<lambda>c. Some ClientError)\<rparr>"

section \<open>Daily date ranges (\<^verbatim>\<open>common_utils.make_api_calls_daily\<close>, \<^verbatim>\<open>amc_main.main\<close>)\<close>

text \<open>
  A \<^verbatim>\<open>datetime\<close> at midnight is modelled by its proleptic Gregorian ordinal.
  \<^verbatim>\<open>datetime.strptime(_, "%Y-%m-%d")\<close> and \<^verbatim>\<open>strftime('%Y-%m-%d')\<close> are library
  functions and are parameters of the model; parsing may raise \<^verbatim>\<open>ValueError\<close>.
  Adding one day past \<^verbatim>\<open>datetime.max\<close> (ordinal 3652059) raises \<^verbatim>\<open>OverflowError\<close>.
\<close>

definition datetime_max :: int where
  "datetime_max = 3652059"

definition plus_one_day :: "int \<Rightarrow> error + int" where
  "plus_one_day d = (if d + 1 \<le> datetime_max then Inr (d + 1) else Inl OverflowError)"

function daily_loop ::
  "(int \<Rightarrow> string) \<Rightarrow> int \<Rightarrow> int \<Rightarrow> (string \<times> string) list \<Rightarrow> error + (string \<times> string) list" where
  "daily_loop strftime start_date end_date date_list =
     (if start_date < end_date then
        (case plus_one_day start_date of
           Inl e \<Rightarrow> Inl e
         | Inr next_day \<Rightarrow>
             daily_loop strftime next_day end_date
               (date_list @ [(strftime start_date, strftime next_day)]))
      else Inr date_list)"
  by pat_completeness auto
termination
  by (relation "measure (\<lambda>(f, s, e, l). nat (e - s))")
     (auto simp: plus_one_day_def split: if_splits)

definition make_api_calls_daily ::
  "(string \<Rightarrow> error + int) \<Rightarrow> (int \<Rightarrow> string) \<Rightarrow> string \<Rightarrow> string \<Rightarrow> error + (string \<times> string) list" where
  "make_api_calls_daily strptime strftime report_start_date report_end_date =
     (case strptime report_start_date of
        Inl e \<Rightarrow> Inl e
      | Inr start_date \<Rightarrow>
          (case strptime report_end_date of
             Inl e \<Rightarrow> Inl e
           | Inr end_date \<Rightarrow> daily_loop strftime start_date end_date []))"

text \<open>
  The tail of \<^verbatim>\<open>main\<close>, from the call of \<^verbatim>\<open>make_api_calls_daily\<close> on: the loop over
  \<^verbatim>\<open>date_list\<close> calls \<^verbatim>\<open>process_report_config\<close>, which submits one report job per
  call and is a parameter here.
\<close>

definition main_date_loop ::
  "(string \<Rightarrow> error + int) \<Rightarrow> (int \<Rightarrow> string) \<Rightarrow> (string \<times> string \<Rightarrow> error option)
     \<Rightarrow> string \<Rightarrow> string \<Rightarrow> error option \<times> (string \<times> string) list" where
  "main_date_loop strptime strftime process_report_config start_date_string end_date_string =
     (case make_api_calls_daily strptime strftime start_date_string end_date_string of
        Inl e \<Rightarrow> (Some e, [])
      | Inr date_list \<Rightarrow> for_each process_report_config date_list)"

section \<open>Properties of the pollers\<close>

subsection \<open>The retry loop\<close>

lemma poll_loop_polls_bound:
  "snd (poll_loop body max_retries get retries polls) \<le> polls + (max_retries - retries)"
proof (induction body max_retries get retries polls rule: poll_loop.induct)
  case (1 body max_retries get retries polls)
  show ?case
  proof (cases "retries < max_retries")
    case False
    then show ?thesis by (simp add: poll_loop.simps)
  next
    case lt: True
    show ?thesis
    proof (cases "get polls")
      case Request_failed
      with lt show ?thesis by (simp add: poll_loop.simps)
    next
      case (Json j)
      show ?thesis
      proof (cases "body j")
        case Continue
        with lt Json "1.IH"[OF lt Json Continue] show ?thesis
          by (simp add: poll_loop.simps[of body max_retries get retries polls])
      qed (use lt Json in \<open>simp_all add: poll_loop.simps[of body max_retries get retries polls]\<close>)
    qed
  qed
qed

lemma poll_loop_all_continue:
  "\<forall>i < max_retries - retries. \<exists>j. get (polls + i) = Json j \<and> body j = Continue \<Longrightarrow>
   poll_loop body max_retries get retries polls =
     (Inl poll_timeout, polls + (max_retries - retries))"
proof (induction body max_retries get retries polls rule: poll_loop.induct)
  case (1 body max_retries get retries polls)
  show ?case
  proof (cases "retries < max_retries")
    case False
    then show ?thesis by (simp add: poll_loop.simps)
  next
    case lt: True
    with "1.prems" obtain j where j: "get polls = Json j" "body j = Continue"
      by (metis add.right_neutral zero_less_diff)
    have "\<forall>i < max_retries - Suc retries. \<exists>j. get (Suc polls + i) = Json j \<and> body j = Continue"
    proof (intro allI impI)
      fix i assume "i < max_retries - Suc retries"
      then have "Suc i < max_retries - retries" by simp
      with "1.prems" show "\<exists>j. get (Suc polls + i) = Json j \<and> body j = Continue"
        by (metis add_Suc_shift)
    qed
    from "1.IH"[OF lt j this] lt j show ?thesis
      by (simp add: poll_loop.simps[of body max_retries get retries polls])
  qed
qed

lemma poll_loop_third:
  assumes "get 0 = Json ja" "body ja = Continue" "get 1 = Json jb" "body jb = Continue"
    "get 2 = Json jc" "body jc = Return x" "2 < max_retries"
  shows "poll_loop body max_retries get 0 0 = (Inr x, 3)"
  using assms by (simp add: poll_loop.simps numeral_2_eq_2 numeral_3_eq_3)


subsection \<open>Which statuses keep the loop going\<close>

lemma ads_continue_iff:
  "(ads_poll_body a = Continue)
     = (ads_status a \<noteq> Some ''COMPLETED'' \<and> ads_status a \<noteq> Some ''FAILURE'')"
  by (auto simp: ads_poll_body_def report_urls_of_def split: option.splits json_urls.splits)

lemma instacart_continue_iff:
  "(instacart_poll_body a = Continue)
     = (ic_status a \<noteq> Some ''completed'' \<and> ic_status a \<noteq> Some ''FAILURE'')"
  by (auto simp: instacart_poll_body_def report_urls_of_def split: option.splits json_urls.splits)

lemma amc_continue_iff:
  "(amc_poll_body url report_id a = Continue)
     = (amc_status a \<noteq> Some ''SUCCEEDED'' \<and> amc_status a \<noteq> Some ''FAILURE''
        \<and> amc_status a \<noteq> Some ''REJECTED'')"
  by (auto simp: amc_poll_body_def)

subsection \<open>The retry budget\<close>

text \<open>
  C1. Whatever the vendor answers, a poller issues at most \<open>max_retries\<close> status GETs
  (15 for Amazon Ads and Instacart, 10 for Amazon Marketing Cloud). When every reply
  within the budget is a non-terminal status, it issues exactly \<open>max_retries\<close> GETs and
  then raises \<^verbatim>\<open>TimeoutError\<close>. This holds for the loop with any budget and any body,
  hence for any job id.
\<close>

theorem poller_within_retry_budget:
  "snd (poll_loop body max_retries get 0 0) \<le> max_retries
   \<and> ((\<forall>n < max_retries. \<exists>j. get n = Json j \<and> body j = Continue) \<longrightarrow>
        poll_loop body max_retries get 0 0 = (Inl poll_timeout, max_retries))
   \<and> snd (ads_fetch_report_url ads_get report_id) \<le> 15
   \<and> snd (instacart_fetch_report_url ic_get report_id) \<le> 15
   \<and> snd (amc_fetch_report_url report_url instance_id amc_get report_id) \<le> 10
   \<and> ((\<forall>n < 15. \<exists>j. ads_get n = Json j \<and> ads_status j \<noteq> Some ''COMPLETED''
              \<and> ads_status j \<noteq> Some ''FAILURE'') \<longrightarrow>
        ads_fetch_report_url ads_get report_id = (Inl poll_timeout, 15))
   \<and> ((\<forall>n < 15. \<exists>j. ic_get n = Json j \<and> ic_status j \<noteq> Some ''completed''
              \<and> ic_status j \<noteq> Some ''FAILURE'') \<longrightarrow>
        instacart_fetch_report_url ic_get report_id = (Inl poll_timeout, 15))
   \<and> ((\<forall>n < 10. \<exists>j. amc_get n = Json j \<and> amc_status j \<noteq> Some ''SUCCEEDED''
              \<and> amc_status j \<noteq> Some ''FAILURE'' \<and> amc_status j \<noteq> Some ''REJECTED'') \<longrightarrow>
        amc_fetch_report_url report_url instance_id amc_get report_id = (Inl poll_timeout, 10))"
proof -
  have bound: "snd (poll_loop b m g 0 0) \<le> m" for b :: "'x \<Rightarrow> 'y step" and m g
    using poll_loop_polls_bound[of b m g 0 0] by simp
  have timeout: "poll_loop b m g 0 0 = (Inl poll_timeout, m)"
    if "\<forall>n < m. \<exists>j. g n = Json j \<and> b j = Continue" for b :: "'x \<Rightarrow> 'y step" and m g
    using poll_loop_all_continue[of m 0 g 0 b] that by simp
  show ?thesis
    unfolding ads_fetch_report_url_def instacart_fetch_report_url_def amc_fetch_report_url_def
    by (intro conjI impI bound timeout)
       (simp_all add: ads_continue_iff instacart_continue_iff amc_continue_iff)
qed

text \<open>Reading a script.\<close>

lemma scripted_final: "length script \<le> n \<Longrightarrow> scripted script final n = final"
  by (simp add: scripted_def)

lemma scripted_0: "scripted (x # xs) final 0 = x"
  by (simp add: scripted_def)

lemma scripted_1: "scripted (x # y # xs) final (Suc 0) = y"
  by (simp add: scripted_def)

lemma scripted_2: "scripted (x # y # z # xs) final 2 = z"
  by (simp add: scripted_def numeral_2_eq_2)

lemma scripted_2_final: "scripted [x, y] final 2 = final"
  by (simp add: scripted_def)

text \<open>A vendor that answers a non-terminal status for ever, for each poller.\<close>

theorem poller_within_retry_budget_witness:
  "ads_fetch_report_url
      (scripted [] (Json \<lparr>ads_status = Some ''IN_PROGRESS'', ads_url = None\<rparr>)) ''r1''
     = (Inl poll_timeout, 15)
   \<and> instacart_fetch_report_url
      (scripted [] (Json \<lparr>ic_status = Some ''processing'', ic_s3_location = None\<rparr>)) ''r1''
     = (Inl poll_timeout, 15)
   \<and> amc_fetch_report_url ''https://api'' ''inst''
      (scripted [] (Json \<lparr>amc_status = Some ''RUNNING'', amc_url = None\<rparr>)) ''r1''
     = (Inl poll_timeout, 10)
   \<and> poll_loop ads_poll_body 3
      (scripted [] (Json \<lparr>ads_status = Some ''IN_PROGRESS'', ads_url = None\<rparr>)) 0 0
     = (Inl poll_timeout, 3)"
  using poller_within_retry_budget
    [where body = ads_poll_body and max_retries = 3
       and get = "scripted [] (Json \<lparr>ads_status = Some ''IN_PROGRESS'', ads_url = None\<rparr>)"
       and ads_get = "scripted [] (Json \<lparr>ads_status = Some ''IN_PROGRESS'', ads_url = None\<rparr>)"
       and ic_get = "scripted [] (Json \<lparr>ic_status = Some ''processing'', ic_s3_location = None\<rparr>)"
       and amc_get = "scripted [] (Json \<lparr>amc_status = Some ''RUNNING'', amc_url = None\<rparr>)"
       and report_id = "''r1''" and report_url = "''https://api''" and instance_id = "''inst''"]
  by (simp add: scripted_final ads_poll_body_def)

subsection \<open>Status handling\<close>

text \<open>
  The status \<^verbatim>\<open>BOGUS\<close> belongs to no vendor's vocabulary. The Amazon Ads loop body
  does not raise on it: it falls through to the next poll, and a vendor that keeps
  answering it is polled 15 times before \<^verbatim>\<open>TimeoutError\<close>.
\<close>

theorem unmapped_status_counterexample:
  "ads_poll_body \<lparr>ads_status = Some ''BOGUS'', ads_url = None\<rparr> = Continue
   \<and> ads_fetch_report_url
        (scripted [] (Json \<lparr>ads_status = Some ''BOGUS'', ads_url = None\<rparr>)) ''r1''
       = (Inl poll_timeout, 15)"
proof -
  have "ads_fetch_report_url
        (scripted [] (Json \<lparr>ads_status = Some ''BOGUS'', ads_url = None\<rparr>)) ''r1''
       = (Inl poll_timeout, 15)"
    unfolding ads_fetch_report_url_def
    using poll_loop_all_continue[of 15 0
        "scripted [] (Json \<lparr>ads_status = Some ''BOGUS'', ads_url = None\<rparr>)" 0 ads_poll_body]
    by (simp add: scripted_final ads_poll_body_def)
  then show ?thesis by (simp add: ads_poll_body_def)
qed

text \<open>
  C2, as the code has it. Every status value (any string, or none) takes exactly one of
  three branches in each poller: the success branch for the vendor's success word
  (\<^verbatim>\<open>COMPLETED\<close>, \<^verbatim>\<open>completed\<close>, \<^verbatim>\<open>SUCCEEDED\<close>), the failure branch for
  \<^verbatim>\<open>FAILURE\<close> (and \<^verbatim>\<open>REJECTED\<close> for Amazon Marketing Cloud), and the
  keep-polling branch for every other value. No value raises for being unknown; the
  success branch never falls through.
\<close>

theorem status_handling_three_way:
  "(ads_poll_body a = Continue)
      = (ads_status a \<noteq> Some ''COMPLETED'' \<and> ads_status a \<noteq> Some ''FAILURE'')
   \<and> ads_poll_body (a\<lparr>ads_status := Some ''COMPLETED''\<rparr>) = report_urls_of (ads_url a)
   \<and> ads_poll_body (a\<lparr>ads_status := Some ''FAILURE''\<rparr>)
        = Raise (Exception ''Report generation failed.'')
   \<and> (instacart_poll_body i = Continue)
      = (ic_status i \<noteq> Some ''completed'' \<and> ic_status i \<noteq> Some ''FAILURE'')
   \<and> instacart_poll_body (i\<lparr>ic_status := Some ''completed''\<rparr>)
        = report_urls_of (ic_s3_location i)
   \<and> instacart_poll_body (i\<lparr>ic_status := Some ''FAILURE''\<rparr>)
        = Raise (Exception ''Report generation failed.'')
   \<and> (amc_poll_body url report_id m = Continue)
      = (amc_status m \<noteq> Some ''SUCCEEDED'' \<and> amc_status m \<noteq> Some ''FAILURE''
         \<and> amc_status m \<noteq> Some ''REJECTED'')
   \<and> amc_poll_body url report_id (m\<lparr>amc_status := Some ''SUCCEEDED''\<rparr>) = Return ([url], None)
   \<and> amc_poll_body url report_id (m\<lparr>amc_status := Some ''FAILURE''\<rparr>)
        = Return ([''''], Some \<lparr>workflowID = Some report_id, date = None, report_type = None,
                                status = Some ''FAILURE''\<rparr>)
   \<and> amc_poll_body url report_id (m\<lparr>amc_status := Some ''REJECTED''\<rparr>)
        = Return ([''''], Some \<lparr>workflowID = Some report_id, date = None, report_type = None,
                                status = Some ''REJECTED''\<rparr>)
   \<and> report_urls_of v \<noteq> Continue"
  by (simp add: ads_continue_iff instacart_continue_iff amc_continue_iff)
     (simp add: ads_poll_body_def instacart_poll_body_def amc_poll_body_def report_urls_of_def
        split: option.splits json_urls.splits)

subsection \<open>Success on the third poll\<close>

text \<open>
  Amazon Marketing Cloud, two replies \<^verbatim>\<open>IN_PROGRESS\<close>, then \<^verbatim>\<open>SUCCEEDED\<close> with
  \<^verbatim>\<open>url = U\<close> for ever after: the poller stops after 3 polls and returns the job's
  \<^verbatim>\<open>downloadUrls\<close> endpoint, not \<open>U\<close>.
\<close>

theorem third_poll_counterexample:
  "amc_fetch_report_url ''https://api'' ''inst''
      (scripted [Json \<lparr>amc_status = Some ''IN_PROGRESS'', amc_url = None\<rparr>,
                 Json \<lparr>amc_status = Some ''IN_PROGRESS'', amc_url = None\<rparr>]
         (Json \<lparr>amc_status = Some ''SUCCEEDED'', amc_url = Some (JStr ''https://signed/U'')\<rparr>))
      ''job1''
     = (Inr ([''https://api/amc/reporting/inst/workflowExecutions/job1/downloadUrls''], None), 3)"
proof -
  let ?m = "scripted [Json \<lparr>amc_status = Some ''IN_PROGRESS'', amc_url = None\<rparr>,
                 Json \<lparr>amc_status = Some ''IN_PROGRESS'', amc_url = None\<rparr>]
         (Json \<lparr>amc_status = Some ''SUCCEEDED'', amc_url = Some (JStr ''https://signed/U'')\<rparr>)"
  let ?e = "download_urls_endpoint ''https://api'' ''inst'' ''job1''"
  have "poll_loop (amc_poll_body ?e ''job1'') 10 ?m 0 0 = (Inr ([?e], None), 3)"
    by (rule poll_loop_third[where
          ja = "\<lparr>amc_status = Some ''IN_PROGRESS'', amc_url = None\<rparr>"
          and jb = "\<lparr>amc_status = Some ''IN_PROGRESS'', amc_url = None\<rparr>"
          and jc = "\<lparr>amc_status = Some ''SUCCEEDED'', amc_url = Some (JStr ''https://signed/U'')\<rparr>"])
       (simp_all add: scripted_0 scripted_2_final scripted_def amc_poll_body_def)
  then show ?thesis
    by (simp add: amc_fetch_report_url_def download_urls_endpoint_def)
qed

text \<open>
  C3, as the code has it. When the first two status replies are non-terminal and the
  third reports success in the vendor's own word, the poller issues exactly 3 status
  GETs. Amazon Ads (success word \<^verbatim>\<open>COMPLETED\<close>, reply carrying the string
  \<^verbatim>\<open>url = U\<close>) returns \<open>[U]\<close>. Amazon Marketing Cloud (success word
  \<^verbatim>\<open>SUCCEEDED\<close>) returns the one-element list holding the job's \<^verbatim>\<open>downloadUrls\<close>
  endpoint, whatever the reply carries.
\<close>

theorem third_poll_success:
  "(ads_get 0 = Json a_first \<and> ads_status a_first \<noteq> Some ''COMPLETED'' \<and> ads_status a_first \<noteq> Some ''FAILURE''
      \<and> ads_get 1 = Json a_second \<and> ads_status a_second \<noteq> Some ''COMPLETED'' \<and> ads_status a_second \<noteq> Some ''FAILURE''
      \<and> ads_get 2 = Json \<lparr>ads_status = Some ''COMPLETED'', ads_url = Some (JStr U)\<rparr>
      \<longrightarrow> ads_fetch_report_url ads_get report_id = (Inr [U], 3))
   \<and> (amc_get 0 = Json m_first \<and> amc_status m_first \<noteq> Some ''SUCCEEDED''
      \<and> amc_status m_first \<noteq> Some ''FAILURE'' \<and> amc_status m_first \<noteq> Some ''REJECTED''
      \<and> amc_get 1 = Json m_second \<and> amc_status m_second \<noteq> Some ''SUCCEEDED''
      \<and> amc_status m_second \<noteq> Some ''FAILURE'' \<and> amc_status m_second \<noteq> Some ''REJECTED''
      \<and> amc_get 2 = Json m_third \<and> amc_status m_third = Some ''SUCCEEDED''
      \<longrightarrow> amc_fetch_report_url report_url instance_id amc_get report_id
            = (Inr ([download_urls_endpoint report_url instance_id report_id], None), 3))"
proof (intro conjI impI)
  assume h: "ads_get 0 = Json a_first \<and> ads_status a_first \<noteq> Some ''COMPLETED'' \<and> ads_status a_first \<noteq> Some ''FAILURE''
      \<and> ads_get 1 = Json a_second \<and> ads_status a_second \<noteq> Some ''COMPLETED'' \<and> ads_status a_second \<noteq> Some ''FAILURE''
      \<and> ads_get 2 = Json \<lparr>ads_status = Some ''COMPLETED'', ads_url = Some (JStr U)\<rparr>"
  show "ads_fetch_report_url ads_get report_id = (Inr [U], 3)"
    unfolding ads_fetch_report_url_def
    by (rule poll_loop_third[where ja = a_first and jb = a_second
          and jc = "\<lparr>ads_status = Some ''COMPLETED'', ads_url = Some (JStr U)\<rparr>"])
       (use h in \<open>simp_all add: ads_continue_iff\<close>, simp add: ads_poll_body_def report_urls_of_def)
next
  assume h: "amc_get 0 = Json m_first \<and> amc_status m_first \<noteq> Some ''SUCCEEDED''
      \<and> amc_status m_first \<noteq> Some ''FAILURE'' \<and> amc_status m_first \<noteq> Some ''REJECTED''
      \<and> amc_get 1 = Json m_second \<and> amc_status m_second \<noteq> Some ''SUCCEEDED''
      \<and> amc_status m_second \<noteq> Some ''FAILURE'' \<and> amc_status m_second \<noteq> Some ''REJECTED''
      \<and> amc_get 2 = Json m_third \<and> amc_status m_third = Some ''SUCCEEDED''"
  show "amc_fetch_report_url report_url instance_id amc_get report_id
            = (Inr ([download_urls_endpoint report_url instance_id report_id], None), 3)"
    unfolding amc_fetch_report_url_def
    by (rule poll_loop_third[where ja = m_first and jb = m_second and jc = m_third])
       (use h in \<open>simp_all add: amc_continue_iff\<close>, simp add: amc_poll_body_def)
qed

text \<open>Both vendors on a scripted run.\<close>

theorem third_poll_success_witness:
  "ads_fetch_report_url
      (scripted [Json \<lparr>ads_status = Some ''IN_PROGRESS'', ads_url = None\<rparr>,
                 Json \<lparr>ads_status = Some ''IN_PROGRESS'', ads_url = None\<rparr>]
         (Json \<lparr>ads_status = Some ''COMPLETED'', ads_url = Some (JStr ''https://signed/U'')\<rparr>))
      ''job1''
     = (Inr [''https://signed/U''], 3)
   \<and> amc_fetch_report_url ''https://api'' ''inst''
      (scripted [Json \<lparr>amc_status = Some ''IN_PROGRESS'', amc_url = None\<rparr>,
                 Json \<lparr>amc_status = Some ''IN_PROGRESS'', amc_url = None\<rparr>]
         (Json \<lparr>amc_status = Some ''SUCCEEDED'', amc_url = None\<rparr>))
      ''job1''
     = (Inr ([download_urls_endpoint ''https://api'' ''inst'' ''job1''], None), 3)"
  using third_poll_success
    [where ads_get = "scripted [Json \<lparr>ads_status = Some ''IN_PROGRESS'', ads_url = None\<rparr>,
                 Json \<lparr>ads_status = Some ''IN_PROGRESS'', ads_url = None\<rparr>]
         (Json \<lparr>ads_status = Some ''COMPLETED'', ads_url = Some (JStr ''https://signed/U'')\<rparr>)"
       and a_first = "\<lparr>ads_status = Some ''IN_PROGRESS'', ads_url = None\<rparr>"
       and a_second = "\<lparr>ads_status = Some ''IN_PROGRESS'', ads_url = None\<rparr>"
       and U = "''https://signed/U''"
       and amc_get = "scripted [Json \<lparr>amc_status = Some ''IN_PROGRESS'', amc_url = None\<rparr>,
                 Json \<lparr>amc_status = Some ''IN_PROGRESS'', amc_url = None\<rparr>]
         (Json \<lparr>amc_status = Some ''SUCCEEDED'', amc_url = None\<rparr>)"
       and m_first = "\<lparr>amc_status = Some ''IN_PROGRESS'', amc_url = None\<rparr>"
       and m_second = "\<lparr>amc_status = Some ''IN_PROGRESS'', amc_url = None\<rparr>"
       and m_third = "\<lparr>amc_status = Some ''SUCCEEDED'', amc_url = None\<rparr>"
       and report_id = "''job1''" and report_url = "''https://api''" and instance_id = "''inst''"]
  by (simp add: scripted_0 scripted_1 scripted_2_final)

subsection \<open>Failure on the second poll\<close>




section \<open>Properties of job creation\<close>

subsection \<open>The rate-limit loop\<close>


lemma api_call_with_delay_step:
  "quota_exceeded (call calls) \<Longrightarrow>
     api_call_with_delay call calls = api_call_with_delay call (Suc calls)"
  by (subst api_call_with_delay.simps)
     (auto split: reply.splits option.splits list.splits)

lemma api_call_with_delay_stop:
  "\<not> quota_exceeded (call calls) \<Longrightarrow>
     \<exists>r. api_call_with_delay call calls = Some (r, Suc calls)"
  by (subst api_call_with_delay.simps)
     (auto split: reply.splits option.splits list.splits)

lemma api_call_with_delay_after_quota:
  "\<forall>i < n. quota_exceeded (call (k + i)) \<Longrightarrow> \<not> quota_exceeded (call (k + n)) \<Longrightarrow>
     \<exists>r. api_call_with_delay call k = Some (r, Suc (k + n))"
proof (induction n arbitrary: k)
  case 0
  then show ?case using api_call_with_delay_stop[of call k] by simp
next
  case (Suc n)
  from Suc.prems(1) have q: "quota_exceeded (call k)" by (metis add.right_neutral zero_less_Suc)
  have "\<forall>i < n. quota_exceeded (call (Suc k + i))"
    using Suc.prems(1) by (metis Suc_less_eq add_Suc_shift)
  moreover have "\<not> quota_exceeded (call (Suc k + n))" using Suc.prems(2) by simp
  ultimately have "\<exists>r. api_call_with_delay call (Suc k) = Some (r, Suc (Suc k + n))"
    by (rule Suc.IH)
  with api_call_with_delay_step[of call k] q show ?case by simp
qed

lemma api_call_with_delay_returns_stop:
  assumes "api_call_with_delay call k = Some y"
  shows "\<exists>i. \<not> quota_exceeded (call i)"
proof (rule api_call_with_delay.raw_induct
    [where P = "\<lambda>c n r. \<exists>i. \<not> quota_exceeded (c i)", OF _ assms])
  fix f c n r
  assume IH: "\<And>c' n' r'. f c' n' = Some r' \<Longrightarrow> \<exists>i. \<not> quota_exceeded (c' i)"
    and body: "(case c n of
        Request_failed \<Rightarrow> Some (Inl RequestException, Suc n)
      | Json response \<Rightarrow>
          (case errors response of
             None \<Rightarrow> Some (Inr response, Suc n)
           | Some [] \<Rightarrow> Some (Inl IndexError, Suc n)
           | Some (None # _) \<Rightarrow> Some (Inl (KeyError ''code''), Suc n)
           | Some (Some code # rest) \<Rightarrow>
               if code = ''QuotaExceeded'' then f c (Suc n)
               else Some (Inl (ResponseError (Some code # rest)), Suc n))) = Some r"
  show "\<exists>i. \<not> quota_exceeded (c i)"
  proof (cases "quota_exceeded (c n)")
    case False
    then show ?thesis by blast
  next
    case True
    with body have "f c (Suc n) = Some r"
      by (auto split: reply.splits option.splits list.splits if_splits)
    then show ?thesis by (rule IH)
  qed
qed

lemma api_call_with_delay_forever:
  "\<forall>i. quota_exceeded (call i) \<Longrightarrow> api_call_with_delay call k = None"
  using api_call_with_delay_returns_stop[of call k] by (cases "api_call_with_delay call k") auto

subsection \<open>How often the creation call is issued\<close>

lemma ads_create_posts_le: "snd (ads_create_report_request rtype report_config post) \<le> 1"
  by (simp add: ads_create_report_request_def split: option.splits reply.splits)

lemma amc_create_posts_le: "snd (amc_create_report_request rtype report_config post) \<le> 1"
  by (simp add: amc_create_report_request_def split: option.splits reply.splits)

lemma avc_create_report_Some:
  "api_call_with_delay post 0 = Some (r, n) \<Longrightarrow> \<exists>r'. avc_create_report post = Some (r', n)"
  by (cases r) (auto simp: avc_create_report_def split: option.splits)

text \<open>
  C7, as the code has it. \<^verbatim>\<open>create_report_request\<close> of Amazon Ads and of Amazon
  Marketing Cloud issues the creation POST at most once, and exactly once when the
  request passes the checks made before the call, whatever the reply. The Amazon Vendor
  Central creation goes through \<^verbatim>\<open>api_call_with_delay\<close>: the POST is issued again
  after every \<^verbatim>\<open>QuotaExceeded\<close> reply, so \<open>n\<close> such replies followed by any other
  outcome make \<open>n + 1\<close> POSTs, and a vendor that answers \<^verbatim>\<open>QuotaExceeded\<close> for ever is
  called for ever.
\<close>

theorem creation_call_count:
  "snd (ads_create_report_request rtype ads_config ads_post) \<le> 1
   \<and> snd (amc_create_report_request rtype amc_config amc_post) \<le> 1
   \<and> (rtype \<noteq> [] \<and> ads_config \<noteq> []
        \<and> find (\<lambda>k. map_of ads_config k = None) ads_payload_keys = None
      \<longrightarrow> snd (ads_create_report_request rtype ads_config ads_post) = 1)
   \<and> (rtype \<noteq> [] \<and> map_of amc_config ''query'' \<noteq> None
      \<longrightarrow> snd (amc_create_report_request rtype amc_config amc_post) = 1)
   \<and> ((\<forall>i < n. quota_exceeded (avc_post i)) \<and> \<not> quota_exceeded (avc_post n)
      \<longrightarrow> (\<exists>r. avc_create_report avc_post = Some (r, Suc n)))
   \<and> ((\<forall>i. quota_exceeded (avc_always i)) \<longrightarrow> avc_create_report avc_always = None)"
proof (intro conjI impI)
  assume "(\<forall>i < n. quota_exceeded (avc_post i)) \<and> \<not> quota_exceeded (avc_post n)"
  then obtain r where "api_call_with_delay avc_post 0 = Some (r, Suc n)"
    using api_call_with_delay_after_quota[of n avc_post 0] by auto
  then show "\<exists>r. avc_create_report avc_post = Some (r, Suc n)"
    by (rule avc_create_report_Some)
next
  assume "\<forall>i. quota_exceeded (avc_always i)"
  then show "avc_create_report avc_always = None"
    by (simp add: avc_create_report_def api_call_with_delay_forever)
next
  assume "rtype \<noteq> [] \<and> map_of amc_config ''query'' \<noteq> None"
  then show "snd (amc_create_report_request rtype amc_config amc_post) = 1"
    by (auto simp: amc_create_report_request_def split: option.splits reply.splits)
next
  assume "rtype \<noteq> [] \<and> ads_config \<noteq> []
        \<and> find (\<lambda>k. map_of ads_config k = None) ads_payload_keys = None"
  then show "snd (ads_create_report_request rtype ads_config ads_post) = 1"
    by (auto simp: ads_create_report_request_def split: option.splits reply.splits)
qed (rule ads_create_posts_le amc_create_posts_le)+

text \<open>
  One request per connector whose first POST fails, two \<^verbatim>\<open>QuotaExceeded\<close> replies
  before a success, and a vendor that never stops answering \<^verbatim>\<open>QuotaExceeded\<close>.
\<close>

theorem creation_call_count_witness:
  "snd (ads_create_report_request ''sp''
          [(''name'', ''n''), (''adProduct'', ''p''), (''groupBy'', ''g''), (''columns'', ''c''),
           (''reportTypeId'', ''t''), (''timeUnit'', ''u''), (''format'', ''f'')]
          (scripted [Request_failed] (Json (Some ''id'')))) = 1
   \<and> snd (amc_create_report_request ''sp'' [(''query'', ''select 1'')]
          (scripted [Request_failed] (Json (Some ''id'')))) = 1
   \<and> (\<exists>r. avc_create_report
          (scripted [Json \<lparr>errors = Some [Some ''QuotaExceeded''], reportId = None\<rparr>,
                     Json \<lparr>errors = Some [Some ''QuotaExceeded''], reportId = None\<rparr>]
             (Json \<lparr>errors = None, reportId = Some ''r1''\<rparr>)) = Some (r, 3))
   \<and> avc_create_report
          (scripted [] (Json \<lparr>errors = Some [Some ''QuotaExceeded''], reportId = None\<rparr>)) = None"
  using creation_call_count
    [where rtype = "''sp''"
       and ads_config = "[(''name'', ''n''), (''adProduct'', ''p''), (''groupBy'', ''g''),
           (''columns'', ''c''), (''reportTypeId'', ''t''), (''timeUnit'', ''u''), (''format'', ''f'')]"
       and ads_post = "scripted [Request_failed] (Json (Some ''id''))"
       and amc_config = "[(''query'', ''select 1'')]"
       and amc_post = "scripted [Request_failed] (Json (Some ''id''))"
       and n = 2
       and avc_post = "scripted [Json \<lparr>errors = Some [Some ''QuotaExceeded''], reportId = None\<rparr>,
                     Json \<lparr>errors = Some [Some ''QuotaExceeded''], reportId = None\<rparr>]
             (Json \<lparr>errors = None, reportId = Some ''r1''\<rparr>)"
       and avc_always = "scripted [] (Json \<lparr>errors = Some [Some ''QuotaExceeded''], reportId = None\<rparr>)"]
  by (simp add: ads_payload_keys_def scripted_def less_Suc_eq numeral_2_eq_2 numeral_3_eq_3)

text \<open>
  One \<^verbatim>\<open>QuotaExceeded\<close> reply, then a success: the Amazon Vendor Central creation POST
  is issued twice within one invocation.
\<close>

theorem creation_retried_counterexample:
  "avc_create_report
      (scripted [Json \<lparr>errors = Some [Some ''QuotaExceeded''], reportId = None\<rparr>]
         (Json \<lparr>errors = None, reportId = Some ''r1''\<rparr>))
     = Some (Inr ''r1'', 2)"
  by (simp add: avc_create_report_def api_call_with_delay.simps scripted_def)

section \<open>Properties of the historical-file rotation\<close>

subsection \<open>Keys and the bucket\<close>

lemma csv_key_not_parquet_key: "suffix ''.csv'' key \<Longrightarrow> key \<noteq> parquet_key pfx file"
  by (auto simp: parquet_key_def suffix_to_prefix)

lemma map_of_put_object: "map_of (put_object key body b) = (map_of b)(key \<mapsto> body)"
  by (simp add: put_object_def update_conv')

lemma map_of_delete_object: "map_of (delete_object key b) = (map_of b)(key := None)"
  by (simp add: delete_object_def delete_conv')

subsection \<open>The order of the calls\<close>

lemma move_files_ordered: "convert_then_delete pfx (s3_calls (move_files w pfx files b))"
  by (induction files arbitrary: b)
     (auto simp: Let_def split: option.splits sum.splits)

lemma move_files_delete_after_put:
  assumes "Delete_object key \<in> set (s3_calls (move_files w pfx files b))"
    and "\<forall>k \<in> set files. suffix ''.csv'' k"
  shows "key \<in> set files \<and> (\<exists>obj parquet. map_of b key = Some obj \<and> to_parquet w obj = Inr parquet
           \<and> put_error w (parquet_key pfx key) = None \<and> delete_error w key = None
           \<and> Put_object (parquet_key pfx key) parquet \<in> set (s3_calls (move_files w pfx files b)))"
  using assms
proof (induction files arbitrary: b)
  case Nil
  then show ?case by simp
next
  case (Cons f rest)
  from Cons.prems(1) obtain obj parquet where
    obj: "map_of b f = Some obj" and conv: "to_parquet w obj = Inr parquet"
    and put: "put_error w (parquet_key pfx f) = None" and del: "delete_error w f = None"
    by (auto simp: get_object_def Let_def split: option.splits sum.splits)
  let ?b2 = "delete_object f (put_object (parquet_key pfx f) parquet b)"
  have calls: "s3_calls (move_files w pfx (f # rest) b)
      = Put_object (parquet_key pfx f) parquet # Delete_object f # s3_calls (move_files w pfx rest ?b2)"
    using obj conv put del by (simp add: get_object_def Let_def)
  show ?case
  proof (cases "key = f")
    case True
    with obj conv put del calls show ?thesis by simp
  next
    case False
    with Cons.prems(1) calls have "Delete_object key \<in> set (s3_calls (move_files w pfx rest ?b2))"
      by simp
    moreover have "\<forall>k \<in> set rest. suffix ''.csv'' k" using Cons.prems(2) by simp
    ultimately have IH: "key \<in> set rest \<and> (\<exists>obj parquet. map_of ?b2 key = Some obj
           \<and> to_parquet w obj = Inr parquet
           \<and> put_error w (parquet_key pfx key) = None \<and> delete_error w key = None
           \<and> Put_object (parquet_key pfx key) parquet \<in> set (s3_calls (move_files w pfx rest ?b2)))"
      by (rule Cons.IH)
    then have "suffix ''.csv'' key" using Cons.prems(2) by simp
    then have "key \<noteq> parquet_key pfx f" by (rule csv_key_not_parquet_key)
    with False have "map_of ?b2 key = map_of b key"
      by (simp add: map_of_put_object map_of_delete_object)
    with IH calls show ?thesis by auto
  qed
qed

lemma move_files_keeps_undeleted:
  assumes "suffix ''.csv'' key"
    and "Delete_object key \<notin> set (s3_calls (move_files w pfx files b))"
  shows "map_of (bucket_after (move_files w pfx files b)) key = map_of b key"
  using assms(2)
proof (induction files arbitrary: b)
  case Nil
  then show ?case by simp
next
  case (Cons f rest)
  have np: "key \<noteq> parquet_key pfx f" using assms(1) by (rule csv_key_not_parquet_key)
  show ?case
  proof (cases "\<exists>obj parquet. map_of b f = Some obj \<and> to_parquet w obj = Inr parquet
           \<and> put_error w (parquet_key pfx f) = None \<and> delete_error w f = None")
    case False
    then show ?thesis using np
      by (auto simp: get_object_def Let_def map_of_put_object split: option.splits sum.splits)
  next
    case True
    then obtain obj parquet where
      obj: "map_of b f = Some obj" and conv: "to_parquet w obj = Inr parquet"
      and put: "put_error w (parquet_key pfx f) = None" and del: "delete_error w f = None"
      by blast
    let ?b2 = "delete_object f (put_object (parquet_key pfx f) parquet b)"
    have calls: "s3_calls (move_files w pfx (f # rest) b)
        = Put_object (parquet_key pfx f) parquet # Delete_object f # s3_calls (move_files w pfx rest ?b2)"
      and after: "bucket_after (move_files w pfx (f # rest) b) = bucket_after (move_files w pfx rest ?b2)"
      using obj conv put del by (simp_all add: get_object_def Let_def)
    from Cons.prems calls have "key \<noteq> f"
      and "Delete_object key \<notin> set (s3_calls (move_files w pfx rest ?b2))" by auto
    then show ?thesis using Cons.IH[of ?b2] np after
      by (simp add: map_of_put_object map_of_delete_object)
  qed
qed

lemma file_list_of_csv: "\<forall>k \<in> set (file_list_of pfx date_list b). suffix ''.csv'' k"
  by (simp add: file_list_of_def)

subsection \<open>A concrete bucket\<close>

lemma example_prefix: "table_prefix ''de'' ''avc'' ''US'' ''T'' = ''de/avc/US/T/''"
  by (simp add: table_prefix_def)

lemma example_dates:
  "date_of ''de/avc/US/T/T_2024-01-01.csv'' = ''2024-01-01''"
  "date_of ''de/avc/US/T/T_2024-01-02.csv'' = ''2024-01-02''"
  by (simp_all add: date_of_def)

lemma example_file_list:
  "file_list_of ''de/avc/US/T/'' [''2024-01-02''] example_bucket = [''de/avc/US/T/T_2024-01-01.csv'']"
  by (simp add: file_list_of_def example_bucket_def example_dates suffix_to_prefix)

lemma example_parquet_key:
  "parquet_key ''de/avc/US/T/'' ''de/avc/US/T/T_2024-01-01.csv''
     = ''de/avc/US/T/processed/T_2024-01-01.parquet''"
  by (simp add: parquet_key_def csv_name_of_def)

lemma example_run_ok:
  "move_previous_csv_to_processed_folder s3_world_ok ''de'' ''US'' [''2024-01-02''] ''avc'' ''T''
      example_bucket
     = \<lparr>rotation_raised = None,
        bucket_after =
          [(''de/avc/US/T/T_2024-01-02.csv'', ''c,d''),
           (''de/avc/US/T/processed/T_2024-01-01.parquet'', ''PAR1a,b'')],
        s3_calls =
          [Put_object ''de/avc/US/T/processed/T_2024-01-01.parquet'' ''PAR1a,b'',
           Delete_object ''de/avc/US/T/T_2024-01-01.csv'']\<rparr>"
  by (simp add: move_previous_csv_to_processed_folder_def example_prefix example_file_list
        example_parquet_key Let_def)
     (simp add: example_bucket_def s3_world_ok_def get_object_def put_object_def
        delete_object_def example_parquet_key)

lemma example_run_bad_csv:
  "move_previous_csv_to_processed_folder s3_world_bad_csv ''de'' ''US'' [''2024-01-02''] ''avc'' ''T''
      example_bucket
     = \<lparr>rotation_raised = Some PandasError, bucket_after = example_bucket, s3_calls = []\<rparr>"
  by (simp add: move_previous_csv_to_processed_folder_def example_prefix example_file_list
        example_parquet_key Let_def)
     (simp add: example_bucket_def s3_world_bad_csv_def s3_world_ok_def get_object_def)

subsection \<open>Convert, then delete\<close>

text \<open>
  C6. In the log of a rotation every \<^verbatim>\<open>delete_object\<close> of a file comes right after the
  \<^verbatim>\<open>put_object\<close> of that file's Parquet key; a file is deleted only if its body was
  converted and its Parquet copy was written without an exception. When the conversion
  or the write of a CSV object fails, that object is not deleted and is still in the
  bucket with the same body.
\<close>

theorem rotation_converts_then_deletes:
  assumes "r = move_previous_csv_to_processed_folder w root_folder country_code date_list
                 source_name table_name b"
    and "pfx = table_prefix root_folder source_name country_code table_name"
  shows "convert_then_delete pfx (s3_calls r)
       \<and> (\<forall>key. Delete_object key \<in> set (s3_calls r) \<longrightarrow>
            (\<exists>obj parquet. map_of b key = Some obj \<and> to_parquet w obj = Inr parquet
               \<and> put_error w (parquet_key pfx key) = None
               \<and> Put_object (parquet_key pfx key) parquet \<in> set (s3_calls r)))
       \<and> (\<forall>key obj e. suffix ''.csv'' key \<and> map_of b key = Some obj
               \<and> (to_parquet w obj = Inl e \<or> put_error w (parquet_key pfx key) = Some e) \<longrightarrow>
            Delete_object key \<notin> set (s3_calls r) \<and> map_of (bucket_after r) key = Some obj)"
proof -
  have r: "r = move_files w pfx (file_list_of pfx date_list b) b"
    using assms by (simp add: move_previous_csv_to_processed_folder_def Let_def)
  have ordered: "convert_then_delete pfx (s3_calls r)"
    unfolding r by (rule move_files_ordered)
  have deleted: "\<exists>obj parquet. map_of b key = Some obj \<and> to_parquet w obj = Inr parquet
               \<and> put_error w (parquet_key pfx key) = None
               \<and> Put_object (parquet_key pfx key) parquet \<in> set (s3_calls r)"
    if "Delete_object key \<in> set (s3_calls r)" for key
    using move_files_delete_after_put[OF that[unfolded r] file_list_of_csv] unfolding r by blast
  have kept: "Delete_object key \<notin> set (s3_calls r) \<and> map_of (bucket_after r) key = Some obj"
    if "suffix ''.csv'' key" "map_of b key = Some obj"
       "to_parquet w obj = Inl e \<or> put_error w (parquet_key pfx key) = Some e" for key obj e
  proof -
    have nd: "Delete_object key \<notin> set (s3_calls r)"
      using deleted[of key] that(2,3) by auto
    with move_files_keeps_undeleted[OF that(1), of w pfx "file_list_of pfx date_list b" b] that(2)
    show ?thesis unfolding r by simp
  qed
  from ordered deleted kept show ?thesis by blast
qed

text \<open>
  The concrete bucket with the batch \<^verbatim>\<open>2024-01-02\<close>: a run in which nothing fails, and
  one in which the conversion fails.
\<close>

theorem rotation_converts_then_deletes_witness:
  "convert_then_delete ''de/avc/US/T/''
      [Put_object ''de/avc/US/T/processed/T_2024-01-01.parquet'' ''PAR1a,b'',
       Delete_object ''de/avc/US/T/T_2024-01-01.csv'']
   \<and> s3_calls (move_previous_csv_to_processed_folder s3_world_ok ''de'' ''US'' [''2024-01-02'']
         ''avc'' ''T'' example_bucket)
       = [Put_object ''de/avc/US/T/processed/T_2024-01-01.parquet'' ''PAR1a,b'',
          Delete_object ''de/avc/US/T/T_2024-01-01.csv'']
   \<and> Delete_object ''de/avc/US/T/T_2024-01-01.csv''
       \<notin> set (s3_calls (move_previous_csv_to_processed_folder s3_world_bad_csv ''de'' ''US''
               [''2024-01-02''] ''avc'' ''T'' example_bucket))
   \<and> map_of (bucket_after (move_previous_csv_to_processed_folder s3_world_bad_csv ''de'' ''US''
               [''2024-01-02''] ''avc'' ''T'' example_bucket))
         ''de/avc/US/T/T_2024-01-01.csv'' = Some ''a,b''"
proof -
  have a: "convert_then_delete ''de/avc/US/T/''
      (s3_calls (move_previous_csv_to_processed_folder s3_world_ok ''de'' ''US'' [''2024-01-02'']
         ''avc'' ''T'' example_bucket))"
    using rotation_converts_then_deletes
      [where w = s3_world_ok and root_folder = "''de''" and country_code = "''US''"
         and date_list = "[''2024-01-02'']" and source_name = "''avc''" and table_name = "''T''"
         and b = example_bucket, OF refl refl]
    by (simp add: example_prefix)
  have b: "Delete_object ''de/avc/US/T/T_2024-01-01.csv''
       \<notin> set (s3_calls (move_previous_csv_to_processed_folder s3_world_bad_csv ''de'' ''US''
               [''2024-01-02''] ''avc'' ''T'' example_bucket))
     \<and> map_of (bucket_after (move_previous_csv_to_processed_folder s3_world_bad_csv ''de'' ''US''
               [''2024-01-02''] ''avc'' ''T'' example_bucket))
         ''de/avc/US/T/T_2024-01-01.csv'' = Some ''a,b''"
  proof -
    have "suffix ''.csv'' ''de/avc/US/T/T_2024-01-01.csv''
        \<and> map_of example_bucket ''de/avc/US/T/T_2024-01-01.csv'' = Some ''a,b''
        \<and> (to_parquet s3_world_bad_csv ''a,b'' = Inl PandasError
           \<or> put_error s3_world_bad_csv
               (parquet_key (table_prefix ''de'' ''avc'' ''US'' ''T'') ''de/avc/US/T/T_2024-01-01.csv'')
             = Some PandasError)"
      by (simp add: suffix_to_prefix example_bucket_def s3_world_bad_csv_def s3_world_ok_def)
    with rotation_converts_then_deletes
      [where w = s3_world_bad_csv and root_folder = "''de''" and country_code = "''US''"
         and date_list = "[''2024-01-02'']" and source_name = "''avc''" and table_name = "''T''"
         and b = example_bucket, OF refl refl]
    show ?thesis by blast
  qed
  from a b show ?thesis by (simp add: example_run_ok)
qed

subsection \<open>A rotation in which nothing fails\<close>

lemma all_succeed_Cons:
  "all_succeed w pfx b (f # rest) =
     ((\<exists>obj parquet. map_of b f = Some obj \<and> to_parquet w obj = Inr parquet)
      \<and> put_error w (parquet_key pfx f) = None \<and> delete_error w f = None
      \<and> all_succeed w pfx b rest)"
  by (auto simp: all_succeed_def split: option.splits sum.splits)

lemma all_succeed_cong:
  "\<forall>k \<in> set files. map_of b' k = map_of b k \<Longrightarrow> all_succeed w pfx b' files = all_succeed w pfx b files"
  by (induction files) (auto simp: all_succeed_def)

lemma move_files_all_succeed:
  assumes "distinct files" "\<forall>k \<in> set files. suffix ''.csv'' k" "all_succeed w pfx b files"
  shows "rotation_raised (move_files w pfx files b) = None
     \<and> s3_calls (move_files w pfx files b)
         = concat (map (\<lambda>k. [Put_object (parquet_key pfx k) (parquet_of w b k), Delete_object k]) files)
     \<and> (\<forall>k \<in> set files. map_of (bucket_after (move_files w pfx files b)) k = None)
     \<and> (\<forall>k. k \<notin> set files \<and> k \<notin> parquet_key pfx ` set files
            \<longrightarrow> map_of (bucket_after (move_files w pfx files b)) k = map_of b k)
     \<and> (\<forall>k \<in> set files. \<exists>k' \<in> set files. parquet_key pfx k' = parquet_key pfx k
            \<and> map_of (bucket_after (move_files w pfx files b)) (parquet_key pfx k)
                = Some (parquet_of w b k'))"
  using assms
proof (induction files arbitrary: b)
  case Nil
  then show ?case by simp
next
  case (Cons f rest)
  from Cons.prems(3) obtain obj parquet where
    obj: "map_of b f = Some obj" and conv: "to_parquet w obj = Inr parquet"
    and put: "put_error w (parquet_key pfx f) = None" and del: "delete_error w f = None"
    and rest_ok: "all_succeed w pfx b rest"
    by (auto simp: all_succeed_Cons)
  let ?b2 = "delete_object f (put_object (parquet_key pfx f) parquet b)"
  let ?r2 = "move_files w pfx rest ?b2"
  have pf: "parquet_of w b f = parquet" using obj conv by (simp add: parquet_of_def)
  have step: "move_files w pfx (f # rest) b
      = ?r2\<lparr>s3_calls := Put_object (parquet_key pfx f) parquet # Delete_object f # s3_calls ?r2\<rparr>"
    using obj conv put del by (simp add: get_object_def Let_def)
  have csv_rest: "\<forall>k \<in> set rest. suffix ''.csv'' k" and csv_f: "suffix ''.csv'' f"
    and f_notin: "f \<notin> set rest" and dist: "distinct rest"
    using Cons.prems(1,2) by auto
  have b2: "map_of ?b2 k = (if k = f then None else if k = parquet_key pfx f then Some parquet else map_of b k)" for k
    by (simp add: map_of_put_object map_of_delete_object)
  have same: "map_of ?b2 k = map_of b k" if "k \<in> set rest" for k
  proof -
    from that csv_rest have "k \<noteq> parquet_key pfx f" by (simp add: csv_key_not_parquet_key)
    moreover from that f_notin have "k \<noteq> f" by auto
    ultimately show ?thesis by (simp add: b2)
  qed
  then have po: "parquet_of w ?b2 k = parquet_of w b k" if "k \<in> set rest" for k
    using that by (simp add: parquet_of_def)
  have "all_succeed w pfx ?b2 rest"
    using rest_ok same all_succeed_cong[of rest ?b2 b w pfx] by simp
  from Cons.IH[OF dist csv_rest this]
  have ih1: "rotation_raised ?r2 = None"
    and ih2: "s3_calls ?r2
         = concat (map (\<lambda>k. [Put_object (parquet_key pfx k) (parquet_of w ?b2 k), Delete_object k]) rest)"
    and ih3: "\<forall>k \<in> set rest. map_of (bucket_after ?r2) k = None"
    and ih4: "\<forall>k. k \<notin> set rest \<and> k \<notin> parquet_key pfx ` set rest
            \<longrightarrow> map_of (bucket_after ?r2) k = map_of ?b2 k"
    and ih5: "\<forall>k \<in> set rest. \<exists>k' \<in> set rest. parquet_key pfx k' = parquet_key pfx k
            \<and> map_of (bucket_after ?r2) (parquet_key pfx k) = Some (parquet_of w ?b2 k')"
    by blast+
  have f_not_target: "f \<notin> parquet_key pfx ` set rest"
    using csv_f csv_key_not_parquet_key by blast
  have c1: "rotation_raised (move_files w pfx (f # rest) b) = None"
    using ih1 by (simp add: step del: move_files.simps)
  have "concat (map (\<lambda>k. [Put_object (parquet_key pfx k) (parquet_of w ?b2 k), Delete_object k]) rest)
      = concat (map (\<lambda>k. [Put_object (parquet_key pfx k) (parquet_of w b k), Delete_object k]) rest)"
    using po by (intro arg_cong[where f = concat] map_cong) simp_all
  then have c2: "s3_calls (move_files w pfx (f # rest) b)
         = concat (map (\<lambda>k. [Put_object (parquet_key pfx k) (parquet_of w b k), Delete_object k]) (f # rest))"
    using ih2 pf by (simp add: step del: move_files.simps)
  have after: "bucket_after (move_files w pfx (f # rest) b) = bucket_after ?r2"
    by (simp add: step del: move_files.simps)
  have c3: "\<forall>k \<in> set (f # rest). map_of (bucket_after (move_files w pfx (f # rest) b)) k = None"
    using ih3 ih4 f_notin f_not_target by (auto simp: after b2 simp del: move_files.simps)
  have c4: "\<forall>k. k \<notin> set (f # rest) \<and> k \<notin> parquet_key pfx ` set (f # rest)
            \<longrightarrow> map_of (bucket_after (move_files w pfx (f # rest) b)) k = map_of b k"
    using ih4 by (auto simp: after b2 simp del: move_files.simps)
  have c5: "\<exists>k' \<in> set (f # rest). parquet_key pfx k' = parquet_key pfx k
            \<and> map_of (bucket_after (move_files w pfx (f # rest) b)) (parquet_key pfx k)
                = Some (parquet_of w b k')" if k: "k \<in> set (f # rest)" for k
  proof (cases "parquet_key pfx k \<in> parquet_key pfx ` set rest")
    case True
    then obtain k0 where k0: "k0 \<in> set rest" "parquet_key pfx k0 = parquet_key pfx k" by auto
    with ih5 obtain k' where "k' \<in> set rest" "parquet_key pfx k' = parquet_key pfx k0"
      "map_of (bucket_after ?r2) (parquet_key pfx k0) = Some (parquet_of w ?b2 k')" by blast
    with k0 po show ?thesis by (auto simp: after simp del: move_files.simps)
  next
    case False
    with k have kf: "parquet_key pfx k = parquet_key pfx f" by auto
    have "parquet_key pfx f \<notin> set rest"
      using csv_rest csv_key_not_parquet_key by blast
    with False kf ih4 have "map_of (bucket_after ?r2) (parquet_key pfx f) = map_of ?b2 (parquet_key pfx f)"
      by simp
    moreover have "parquet_key pfx f \<noteq> f"
      using csv_key_not_parquet_key[OF csv_f, of pfx f] by simp
    ultimately show ?thesis using kf pf by (auto simp: after b2 simp del: move_files.simps)
  qed
  from c1 c2 c3 c4 c5 show ?case by blast
qed

subsection \<open>Which files are rotated\<close>

lemma file_list_of_candidates:
  assumes "\<forall>key \<in> set (map fst b). prefix (pfx @ ''processed'') key
              \<longrightarrow> prefix (pfx @ ''processed/'') key"
  shows "file_list_of pfx date_list b = filter (rotation_candidate pfx date_list) (map fst b)"
proof -
  have eq: "prefix (pfx @ ''processed'') key = prefix (pfx @ ''processed/'') key"
    if "key \<in> set (map fst b)" for key
  proof
    assume "prefix (pfx @ ''processed'') key"
    with assms that show "prefix (pfx @ ''processed/'') key" by blast
  next
    assume "prefix (pfx @ ''processed/'') key"
    then obtain rest where "key = (pfx @ ''processed/'') @ rest" by (auto simp: prefix_def)
    then have "key = (pfx @ ''processed'') @ (''/'' @ rest)" by simp
    then show "prefix (pfx @ ''processed'') key" by (metis prefixI)
  qed
  show ?thesis
    unfolding file_list_of_def rotation_candidate_def
  proof (rule filter_cong[OF refl])
    fix key assume "key \<in> set (map fst b)"
    from eq[OF this]
    show "(\<not> prefix (pfx @ ''processed'') key \<and> prefix pfx key
            \<and> date_of key \<notin> set date_list \<and> suffix ''.csv'' key)
        = (suffix ''.csv'' key \<and> prefix pfx key \<and> \<not> prefix (pfx @ ''processed/'') key
            \<and> date_of key \<notin> set date_list)"
      by (simp only:) blast
  qed
qed

text \<open>
  C5, as the code has it. Take a bucket with distinct keys in which nothing under the
  table's prefix begins with \<^verbatim>\<open>processed\<close> except what lies under \<^verbatim>\<open>processed/\<close>, and a
  run in which every conversion, write and delete succeeds. Then the rotation raises
  nothing; it converts and removes exactly the \<^verbatim>\<open>.csv\<close> objects under the table's
  prefix that are not under \<^verbatim>\<open>processed/\<close> and whose date is not in the batch, each by
  a \<^verbatim>\<open>put_object\<close> of its Parquet copy under \<^verbatim>\<open>processed/\<close> followed by its
  \<^verbatim>\<open>delete_object\<close>; every CSV whose date is in the batch, and every other CSV that is
  not rotated, is unchanged; every non-CSV object is unchanged unless its key is the
  Parquet key of a rotated file, in which case it now holds the new Parquet copy.
\<close>

theorem rotation_moves_old_csv_files:
  assumes "r = move_previous_csv_to_processed_folder w root_folder country_code date_list
                 source_name table_name b"
    and "pfx = table_prefix root_folder source_name country_code table_name"
    and "files = filter (rotation_candidate pfx date_list) (map fst b)"
    and "distinct (map fst b)"
    and "\<forall>key \<in> set (map fst b). prefix (pfx @ ''processed'') key
              \<longrightarrow> prefix (pfx @ ''processed/'') key"
    and "all_succeed w pfx b files"
  shows "rotation_raised r = None
     \<and> s3_calls r
         = concat (map (\<lambda>k. [Put_object (parquet_key pfx k) (parquet_of w b k), Delete_object k]) files)
     \<and> (\<forall>k \<in> set files. map_of (bucket_after r) k = None)
     \<and> (\<forall>k \<in> set files. \<exists>k' \<in> set files. parquet_key pfx k' = parquet_key pfx k
            \<and> map_of (bucket_after r) (parquet_key pfx k) = Some (parquet_of w b k'))
     \<and> (\<forall>k. suffix ''.csv'' k \<and> date_of k \<in> set date_list
            \<longrightarrow> map_of (bucket_after r) k = map_of b k)
     \<and> (\<forall>k. suffix ''.csv'' k \<and> k \<notin> set files
            \<longrightarrow> map_of (bucket_after r) k = map_of b k)
     \<and> (\<forall>k. \<not> suffix ''.csv'' k \<and> k \<notin> parquet_key pfx ` set files
            \<longrightarrow> map_of (bucket_after r) k = map_of b k)"
proof -
  have fl: "file_list_of pfx date_list b = files"
    using file_list_of_candidates[OF assms(5)] assms(3) by simp
  have r: "r = move_files w pfx files b"
    using assms(1,2) fl by (simp add: move_previous_csv_to_processed_folder_def Let_def)
  have d: "distinct files" using assms(3,4) by simp
  have csv: "\<forall>k \<in> set files. suffix ''.csv'' k"
    using assms(3) by (simp add: rotation_candidate_def)
  note main = move_files_all_succeed[OF d csv assms(6), folded r]
  have not_target: "k \<notin> parquet_key pfx ` set files" if "suffix ''.csv'' k" for k
    using that csv_key_not_parquet_key by blast
  have not_file: "k \<notin> set files" if "\<not> suffix ''.csv'' k" for k
    using that csv by blast
  have in_batch: "k \<notin> set files" if "date_of k \<in> set date_list" for k
    using that assms(3) by (simp add: rotation_candidate_def)
  from main have m1: "rotation_raised r = None"
    and m2: "s3_calls r
         = concat (map (\<lambda>k. [Put_object (parquet_key pfx k) (parquet_of w b k), Delete_object k]) files)"
    and m3: "\<forall>k \<in> set files. map_of (bucket_after r) k = None"
    and m4: "\<forall>k. k \<notin> set files \<and> k \<notin> parquet_key pfx ` set files
            \<longrightarrow> map_of (bucket_after r) k = map_of b k"
    and m5: "\<forall>k \<in> set files. \<exists>k' \<in> set files. parquet_key pfx k' = parquet_key pfx k
            \<and> map_of (bucket_after r) (parquet_key pfx k) = Some (parquet_of w b k')"
    by blast+
  have c5: "\<forall>k. suffix ''.csv'' k \<and> date_of k \<in> set date_list
            \<longrightarrow> map_of (bucket_after r) k = map_of b k"
    using m4 not_target in_batch by simp
  have c6: "\<forall>k. suffix ''.csv'' k \<and> k \<notin> set files
            \<longrightarrow> map_of (bucket_after r) k = map_of b k"
    using m4 not_target by simp
  have c7: "\<forall>k. \<not> suffix ''.csv'' k \<and> k \<notin> parquet_key pfx ` set files
            \<longrightarrow> map_of (bucket_after r) k = map_of b k"
    using m4 not_file by simp
  show ?thesis
    by (intro conjI) (rule m1 m2 m3 m5 c5 c6 c7)+
qed

text \<open>
  The concrete bucket with the batch \<^verbatim>\<open>2024-01-02\<close>: only \<^verbatim>\<open>T_2024-01-01.csv\<close> is
  converted and removed.
\<close>

lemma example_candidates:
  "filter (rotation_candidate ''de/avc/US/T/'' [''2024-01-02'']) (map fst example_bucket)
     = [''de/avc/US/T/T_2024-01-01.csv'']"
  by (simp add: rotation_candidate_def example_bucket_def example_dates suffix_to_prefix)

theorem rotation_moves_old_csv_files_witness:
  "rotation_raised (move_previous_csv_to_processed_folder s3_world_ok ''de'' ''US''
        [''2024-01-02''] ''avc'' ''T'' example_bucket) = None
   \<and> s3_calls (move_previous_csv_to_processed_folder s3_world_ok ''de'' ''US''
        [''2024-01-02''] ''avc'' ''T'' example_bucket)
       = [Put_object ''de/avc/US/T/processed/T_2024-01-01.parquet'' ''PAR1a,b'',
          Delete_object ''de/avc/US/T/T_2024-01-01.csv'']
   \<and> map_of (bucket_after (move_previous_csv_to_processed_folder s3_world_ok ''de'' ''US''
        [''2024-01-02''] ''avc'' ''T'' example_bucket)) ''de/avc/US/T/T_2024-01-01.csv'' = None
   \<and> map_of (bucket_after (move_previous_csv_to_processed_folder s3_world_ok ''de'' ''US''
        [''2024-01-02''] ''avc'' ''T'' example_bucket)) ''de/avc/US/T/T_2024-01-02.csv''
       = Some ''c,d''"
proof -
  have d: "distinct (map fst example_bucket)"
    by (simp add: example_bucket_def)
  have p: "\<forall>key \<in> set (map fst example_bucket). prefix (''de/avc/US/T/'' @ ''processed'') key
              \<longrightarrow> prefix (''de/avc/US/T/'' @ ''processed/'') key"
    by (simp add: example_bucket_def)
  have s: "all_succeed s3_world_ok ''de/avc/US/T/'' example_bucket [''de/avc/US/T/T_2024-01-01.csv'']"
    by (simp add: all_succeed_def example_bucket_def s3_world_ok_def)
  have po: "parquet_of s3_world_ok example_bucket ''de/avc/US/T/T_2024-01-01.csv'' = ''PAR1a,b''"
    by (simp add: parquet_of_def example_bucket_def s3_world_ok_def)
  have sfx: "suffix ''.csv'' ''de/avc/US/T/T_2024-01-02.csv''"
    by (simp add: suffix_to_prefix)
  have m: "map_of example_bucket ''de/avc/US/T/T_2024-01-02.csv'' = Some ''c,d''"
    by (simp add: example_bucket_def)
  from rotation_moves_old_csv_files
    [where w = s3_world_ok and root_folder = "''de''" and country_code = "''US''"
       and date_list = "[''2024-01-02'']" and source_name = "''avc''" and table_name = "''T''"
       and b = example_bucket and pfx = "''de/avc/US/T/''"
       and files = "[''de/avc/US/T/T_2024-01-01.csv'']",
     OF refl example_prefix[symmetric] example_candidates[symmetric] d p s]
  show ?thesis
    using sfx m by (simp add: po example_parquet_key example_dates)
qed

text \<open>
  Three runs. An object that is not a CSV, the Parquet copy left by an earlier rotation,
  is overwritten. A CSV that does not convert ends the rotation with an exception and
  nothing is removed. For a table named \<^verbatim>\<open>processed_orders\<close>, the daily file is under
  the table's prefix, not under \<^verbatim>\<open>processed/\<close>, and its date is not in the batch, yet it
  is not rotated.
\<close>

lemma processed_orders_run:
  "move_previous_csv_to_processed_folder s3_world_ok ''de'' ''US'' [] ''avc'' ''processed_orders''
      processed_orders_bucket
     = \<lparr>rotation_raised = None, bucket_after = processed_orders_bucket, s3_calls = []\<rparr>"
  by (simp add: move_previous_csv_to_processed_folder_def table_prefix_def file_list_of_def
        processed_orders_bucket_def)

theorem rotation_counterexample:
  "map_of example_bucket ''de/avc/US/T/processed/T_2024-01-01.parquet'' = Some ''old''
   \<and> map_of (bucket_after (move_previous_csv_to_processed_folder s3_world_ok ''de'' ''US''
        [''2024-01-02''] ''avc'' ''T'' example_bucket))
       ''de/avc/US/T/processed/T_2024-01-01.parquet'' = Some ''PAR1a,b''
   \<and> move_previous_csv_to_processed_folder s3_world_bad_csv ''de'' ''US'' [''2024-01-02'']
        ''avc'' ''T'' example_bucket
       = \<lparr>rotation_raised = Some PandasError, bucket_after = example_bucket, s3_calls = []\<rparr>
   \<and> move_previous_csv_to_processed_folder s3_world_ok ''de'' ''US'' [] ''avc''
        ''processed_orders'' processed_orders_bucket
       = \<lparr>rotation_raised = None, bucket_after = processed_orders_bucket, s3_calls = []\<rparr>"
  by (simp add: example_run_ok example_run_bad_csv processed_orders_run)
     (simp add: example_bucket_def)

section \<open>Properties of \<^verbatim>\<open>fetch_report_data\<close>\<close>

subsection \<open>The helper functions\<close>

lemma cleanup_files_eq:
  "cleanup_files ps fs = (\<lambda>p. if p \<in> set ps then None else fs p)"
  by (induction ps arbitrary: fs) (auto simp: fun_eq_iff)

lemma file_extension_of_cases:
  "file_extension_of path = Some e \<Longrightarrow> e = ''.orc'' \<or> e = ''.gz'' \<or> e = ''.csv''"
  by (auto simp: file_extension_of_def split: if_splits)

lemma process_by_type_success:
  assumes "process_by_type w e (temp_name w @ e) fs1 = (Inr (csv_filename, temporary), fs2)"
    and "e = ''.orc'' \<or> e = ''.gz'' \<or> e = ''.csv''"
  shows "set temporary = set (temporary_files w e)
       \<and> (\<forall>p. p \<notin> set temporary \<longrightarrow> fs2 p = fs1 p)"
  using assms
  by (auto simp: process_by_type_def temporary_files_def decompress_file_def load_json_def
        convert_json_to_csv_def convert_orc_to_csv_def Let_def
      split: if_splits option.splits sum.splits prod.splits)

lemma process_by_type_keeps:
  assumes "process_by_type w e l fs1 = (r, fs2)" "fs1 p \<noteq> None"
  shows "fs2 p \<noteq> None"
  using assms
  by (auto simp: process_by_type_def decompress_file_def load_json_def
        convert_json_to_csv_def convert_orc_to_csv_def Let_def
      split: if_splits option.splits sum.splits prod.splits)

lemma fetch_failure_files:
  assumes "file_extension_of (lower (urlparse_path w report_url)) = Some e"
    and "http_get w report_url = Json content"
    and "failure (fetch_report_data w report_url fs) \<noteq> None"
  shows "\<exists>r. process_by_type w e (temp_name w @ e) (fs(temp_name w @ e \<mapsto> content))
            = (r, files_after (fetch_report_data w report_url fs))"
  using assms
  by (cases "process_by_type w e (temp_name w @ e) (fs(temp_name w @ e \<mapsto> content))")
     (auto simp: fetch_report_data_def Let_def split: sum.splits prod.splits)

lemma gz_decompressed_exists:
  assumes "process_by_type w ''.gz'' l fs1 = (r, fs2)" "fs1 l \<noteq> None"
  shows "fs2 (replace ''.gz'' '''' l) \<noteq> None"
  using assms
  by (auto simp: process_by_type_def decompress_file_def load_json_def
        convert_json_to_csv_def Let_def
      split: if_splits option.splits sum.splits prod.splits)

lemma gz_csv_written:
  assumes "process_by_type w ''.gz'' l fs1 = (r, fs2)" "fs1 l = Some content"
    "gunzip w content = Inr plain" "json_load w plain = Inr report_data"
    "json_to_csv w report_data = Inr csv"
  shows "fs2 ''/tmp/report.csv'' = Some csv"
  using assms
  by (auto simp: process_by_type_def decompress_file_def load_json_def
        convert_json_to_csv_def Let_def
      split: if_splits option.splits sum.splits prod.splits)

lemma orc_csv_written:
  assumes "process_by_type w ''.orc'' l fs1 = (r, fs2)" "fs1 l = Some content"
    "orc_to_csv w content = Inr csv"
  shows "fs2 (replace ''.orc'' ''.csv'' l) = Some csv"
  using assms
  by (auto simp: process_by_type_def convert_orc_to_csv_def Let_def
      split: if_splits option.splits sum.splits prod.splits)

subsection \<open>Concrete URLs\<close>

lemma lower_examples:
  "lower ''/export/report.txt'' = ''/export/report.txt''"
  "lower ''/export/Report.JSON'' = ''/export/report.json''"
  "lower ''/r/report.json.gz'' = ''/r/report.json.gz''"
  "lower ''/report.csv'' = ''/report.csv''"
  "lower ''/r/report.orc'' = ''/r/report.orc''"
  by (simp_all add: lower_def lower_char_def)

lemma plain_url_path_examples:
  "plain_url_path ''https://host/export/report.txt'' = ''/export/report.txt''"
  "plain_url_path ''https://host/export/Report.JSON?sig=1'' = ''/export/Report.JSON''"
  "plain_url_path ''https://host/r/report.json.gz?sig=1'' = ''/r/report.json.gz''"
  "plain_url_path ''https://host/report.csv'' = ''/report.csv''"
  "plain_url_path ''https://host/r/report.orc;v=1?sig=1'' = ''/r/report.orc''"
  "plain_url_path ''https://host'' = []"
  by (simp_all add: plain_url_path_def without_params_def)

subsection \<open>A URL with an unrecognised extension\<close>

text \<open>
  A URL whose path ends in \<^verbatim>\<open>.txt\<close>: the function raises \<^verbatim>\<open>ValueError\<close> before any
  download; nothing is inspected, written or uploaded.
\<close>

theorem unrecognised_extension_counterexample:
  "fetch_report_data world_ok ''https://host/export/report.txt'' no_files
     = \<lparr>failure = Some (ValueError ''Could not determine file extension from URL''),
        files_after = no_files, fetched = [], uploaded = []\<rparr>"
  by (simp add: fetch_report_data_def world_ok_def plain_url_path_examples lower_examples
        file_extension_of_def suffix_to_prefix)

text \<open>
  C8, as the code has it. For every URL whose lower-cased path ends in none of
  \<^verbatim>\<open>.orc\<close>, \<^verbatim>\<open>.gz\<close> and \<^verbatim>\<open>.csv\<close>, \<^verbatim>\<open>fetch_report_data\<close> raises
  \<^verbatim>\<open>ValueError("Could not determine file extension from URL")\<close> before it
  downloads anything: no download, no temporary file, no upload.
\<close>

theorem unrecognised_extension_raises:
  "\<not> suffix ''.orc'' (lower (urlparse_path w report_url))
   \<and> \<not> suffix ''.gz'' (lower (urlparse_path w report_url))
   \<and> \<not> suffix ''.csv'' (lower (urlparse_path w report_url))
   \<longrightarrow> fetch_report_data w report_url fs
         = \<lparr>failure = Some (ValueError ''Could not determine file extension from URL''),
            files_after = fs, fetched = [], uploaded = []\<rparr>"
  by (simp add: fetch_report_data_def file_extension_of_def)

text \<open>A URL whose path ends in \<^verbatim>\<open>.JSON\<close>, with a file system that holds one file.\<close>

theorem unrecognised_extension_raises_witness:
  "fetch_report_data world_ok ''https://host/export/Report.JSON?sig=1'' [''/tmp/keep'' \<mapsto> ''x'']
     = \<lparr>failure = Some (ValueError ''Could not determine file extension from URL''),
        files_after = [''/tmp/keep'' \<mapsto> ''x''], fetched = [], uploaded = []\<rparr>"
  using unrecognised_extension_raises
    [of world_ok "''https://host/export/Report.JSON?sig=1''" "[''/tmp/keep'' \<mapsto> ''x'']"]
  by (simp add: world_ok_def plain_url_path_examples lower_examples suffix_to_prefix)

subsection \<open>Temporary files\<close>

text \<open>
  A \<^verbatim>\<open>.csv\<close> URL whose upload fails: the exception reaches the caller and the
  downloaded temporary file is still there.
\<close>

theorem cleanup_on_failure_counterexample:
  "failure (fetch_report_data world_upload_fails ''https://host/report.csv'' no_files)
     = Some ClientError
   \<and> files_after (fetch_report_data world_upload_fails ''https://host/report.csv'' no_files)
       ''/tmp/tmpq1w2e3.csv'' = Some ''bytes''"
  by (simp add: fetch_report_data_def world_upload_fails_def world_ok_def no_files_def
        plain_url_path_examples lower_examples file_extension_of_def suffix_to_prefix
        process_by_type_def upload_file_to_destination_def Let_def)

text \<open>
  C9, as the code has it. When \<^verbatim>\<open>fetch_report_data\<close> returns without an exception,
  every temporary file of the invocation (the downloaded file, and for \<^verbatim>\<open>.gz\<close> the
  decompressed file and \<^verbatim>\<open>/tmp/report.csv\<close>, for \<^verbatim>\<open>.orc\<close> the generated CSV) is
  gone and every other file is as it was. When a step after the download raises,
  \<^verbatim>\<open>cleanup_files\<close> is not reached and every file created so far is left behind: the
  downloaded file, for \<^verbatim>\<open>.gz\<close> the decompressed file, and the generated CSV when the
  conversion had produced it (so that the upload is what raised); no file that was
  there before is removed.
\<close>

theorem temporary_files_removed_on_success:
  "(file_extension_of (lower (urlparse_path w report_url)) = Some e
      \<and> failure (fetch_report_data w report_url fs) = None
    \<longrightarrow> files_after (fetch_report_data w report_url fs)
          = (\<lambda>p. if p \<in> set (temporary_files w e) then None else fs p))
   \<and> (file_extension_of (lower (urlparse_path w report_url)) = Some e
      \<and> http_get w report_url = Json content
      \<and> failure (fetch_report_data w report_url fs) \<noteq> None
    \<longrightarrow> files_after (fetch_report_data w report_url fs) (temp_name w @ e) \<noteq> None
        \<and> (\<forall>p. fs p \<noteq> None
              \<longrightarrow> files_after (fetch_report_data w report_url fs) p \<noteq> None)
        \<and> (e = ''.gz''
              \<longrightarrow> files_after (fetch_report_data w report_url fs)
                    (replace ''.gz'' '''' (temp_name w @ ''.gz'')) \<noteq> None)
        \<and> (e = ''.gz'' \<and> gunzip w content = Inr plain \<and> json_load w plain = Inr report_data
              \<and> json_to_csv w report_data = Inr csv
              \<longrightarrow> files_after (fetch_report_data w report_url fs) ''/tmp/report.csv'' = Some csv)
        \<and> (e = ''.orc'' \<and> orc_to_csv w content = Inr orc_csv
              \<longrightarrow> files_after (fetch_report_data w report_url fs)
                    (replace ''.orc'' ''.csv'' (temp_name w @ ''.orc'')) = Some orc_csv))"
proof (intro conjI impI allI)
  assume h: "file_extension_of (lower (urlparse_path w report_url)) = Some e
      \<and> failure (fetch_report_data w report_url fs) = None"
  then have e: "e = ''.orc'' \<or> e = ''.gz'' \<or> e = ''.csv''"
    by (blast dest: file_extension_of_cases)
  from h obtain content csv_filename temporary fs2 sent where
    get: "http_get w report_url = Json content"
    and pbt: "process_by_type w e (temp_name w @ e) (fs(temp_name w @ e \<mapsto> content))
                = (Inr (csv_filename, temporary), fs2)"
    and up: "upload_file_to_destination w csv_filename fs2 = Inr sent"
    by (auto simp: fetch_report_data_def Let_def
          split: reply.splits prod.splits sum.splits)
  from process_by_type_success[OF pbt e]
  have t: "set temporary = set (temporary_files w e)"
    and same: "\<And>p. p \<notin> set temporary \<Longrightarrow> fs2 p = (fs(temp_name w @ e \<mapsto> content)) p"
    by auto
  have local: "temp_name w @ e \<in> set (temporary_files w e)"
    using e by (auto simp: temporary_files_def)
  have "files_after (fetch_report_data w report_url fs) = cleanup_files temporary fs2"
    using h get pbt up by (simp add: fetch_report_data_def)
  also have "\<dots> = (\<lambda>p. if p \<in> set (temporary_files w e) then None else fs p)"
    using t same local by (auto simp: cleanup_files_eq fun_eq_iff)
  finally show "files_after (fetch_report_data w report_url fs)
          = (\<lambda>p. if p \<in> set (temporary_files w e) then None else fs p)" .
next
  assume h: "file_extension_of (lower (urlparse_path w report_url)) = Some e
      \<and> http_get w report_url = Json content
      \<and> failure (fetch_report_data w report_url fs) \<noteq> None"
  then obtain r where pbt:
    "process_by_type w e (temp_name w @ e) (fs(temp_name w @ e \<mapsto> content))
       = (r, files_after (fetch_report_data w report_url fs))"
    using fetch_failure_files by blast
  have local: "(fs(temp_name w @ e \<mapsto> content)) (temp_name w @ e) = Some content"
    by simp
  show "files_after (fetch_report_data w report_url fs) (temp_name w @ e) \<noteq> None"
    by (rule process_by_type_keeps[OF pbt]) simp
  {
    fix p assume "fs p \<noteq> None"
    then have "(fs(temp_name w @ e \<mapsto> content)) p \<noteq> None" by simp
    then show "files_after (fetch_report_data w report_url fs) p \<noteq> None"
      by (rule process_by_type_keeps[OF pbt])
  }
  {
    assume "e = ''.gz''"
    with pbt local
    show "files_after (fetch_report_data w report_url fs)
            (replace ''.gz'' '''' (temp_name w @ ''.gz'')) \<noteq> None"
      using gz_decompressed_exists[of w "temp_name w @ ''.gz''"
          "fs(temp_name w @ ''.gz'' \<mapsto> content)" r
          "files_after (fetch_report_data w report_url fs)"]
      by simp
  }
  {
    assume "e = ''.gz'' \<and> gunzip w content = Inr plain \<and> json_load w plain = Inr report_data
              \<and> json_to_csv w report_data = Inr csv"
    with pbt local
    show "files_after (fetch_report_data w report_url fs) ''/tmp/report.csv'' = Some csv"
      using gz_csv_written[of w "temp_name w @ ''.gz''"
          "fs(temp_name w @ ''.gz'' \<mapsto> content)" r
          "files_after (fetch_report_data w report_url fs)" content plain report_data csv]
      by simp
  }
  {
    assume "e = ''.orc'' \<and> orc_to_csv w content = Inr orc_csv"
    with pbt local
    show "files_after (fetch_report_data w report_url fs)
            (replace ''.orc'' ''.csv'' (temp_name w @ ''.orc'')) = Some orc_csv"
      using orc_csv_written[of w "temp_name w @ ''.orc''"
          "fs(temp_name w @ ''.orc'' \<mapsto> content)" r
          "files_after (fetch_report_data w report_url fs)" content orc_csv]
      by simp
  }
qed

text \<open>
  A \<^verbatim>\<open>.gz\<close> report that goes through, and a \<^verbatim>\<open>.gz\<close> and an \<^verbatim>\<open>.orc\<close> report whose
  upload fails.
\<close>

lemma temporary_files_gz_example:
  "temporary_files world_ok ''.gz'' = [''/tmp/tmpq1w2e3.gz'', ''/tmp/tmpq1w2e3'', ''/tmp/report.csv'']"
  by (simp add: temporary_files_def world_ok_def)

lemma example_extensions:
  "file_extension_of (lower (plain_url_path ''https://host/r/report.json.gz?sig=1'')) = Some ''.gz''"
  "file_extension_of (lower (plain_url_path ''https://host/r/report.orc;v=1?sig=1'')) = Some ''.orc''"
  by (simp_all add: plain_url_path_examples lower_examples file_extension_of_def suffix_to_prefix)

lemma fetch_gz_example_succeeds:
  "failure (fetch_report_data world_ok ''https://host/r/report.json.gz?sig=1''
              [''/tmp/keep'' \<mapsto> ''x'']) = None"
  by (simp add: fetch_report_data_def world_ok_def example_extensions process_by_type_def
        decompress_file_def load_json_def convert_json_to_csv_def
        upload_file_to_destination_def Let_def)

lemma fetch_gz_example_fails:
  "failure (fetch_report_data world_upload_fails ''https://host/r/report.json.gz?sig=1''
              [''/tmp/keep'' \<mapsto> ''x'']) = Some ClientError"
  by (simp add: fetch_report_data_def world_upload_fails_def world_ok_def example_extensions
        process_by_type_def decompress_file_def load_json_def convert_json_to_csv_def
        upload_file_to_destination_def Let_def)

lemma fetch_orc_example_fails:
  "failure (fetch_report_data world_upload_fails ''https://host/r/report.orc;v=1?sig=1''
              [''/tmp/keep'' \<mapsto> ''x'']) = Some ClientError"
  by (simp add: fetch_report_data_def world_upload_fails_def world_ok_def example_extensions
        process_by_type_def convert_orc_to_csv_def upload_file_to_destination_def Let_def)

theorem temporary_files_removed_on_success_witness:
  "files_after (fetch_report_data world_ok ''https://host/r/report.json.gz?sig=1''
                  [''/tmp/keep'' \<mapsto> ''x''])
     = (\<lambda>p. if p \<in> {''/tmp/tmpq1w2e3.gz'', ''/tmp/tmpq1w2e3'', ''/tmp/report.csv''} then None
            else [''/tmp/keep'' \<mapsto> ''x''] p)
   \<and> files_after (fetch_report_data world_upload_fails ''https://host/r/report.json.gz?sig=1''
                  [''/tmp/keep'' \<mapsto> ''x'']) ''/tmp/tmpq1w2e3.gz'' \<noteq> None
   \<and> files_after (fetch_report_data world_upload_fails ''https://host/r/report.json.gz?sig=1''
                  [''/tmp/keep'' \<mapsto> ''x'']) ''/tmp/keep'' \<noteq> None
   \<and> files_after (fetch_report_data world_upload_fails ''https://host/r/report.json.gz?sig=1''
                  [''/tmp/keep'' \<mapsto> ''x'']) ''/tmp/tmpq1w2e3'' \<noteq> None
   \<and> files_after (fetch_report_data world_upload_fails ''https://host/r/report.json.gz?sig=1''
                  [''/tmp/keep'' \<mapsto> ''x'']) ''/tmp/report.csv'' = Some ''a,b''
   \<and> files_after (fetch_report_data world_upload_fails ''https://host/r/report.orc;v=1?sig=1''
                  [''/tmp/keep'' \<mapsto> ''x'']) ''/tmp/tmpq1w2e3.csv'' = Some ''a,b''"
proof -
  have fields: "urlparse_path world_ok = plain_url_path"
    "urlparse_path world_upload_fails = plain_url_path"
    "http_get world_upload_fails ''https://host/r/report.json.gz?sig=1'' = Json ''bytes''"
    "http_get world_upload_fails ''https://host/r/report.orc;v=1?sig=1'' = Json ''bytes''"
    "temp_name world_upload_fails = ''/tmp/tmpq1w2e3''"
    "gunzip world_upload_fails ''bytes'' = Inr ''[{}]''"
    "json_load world_upload_fails ''[{}]'' = Inr ''[{}]''"
    "json_to_csv world_upload_fails ''[{}]'' = Inr ''a,b''"
    "orc_to_csv world_upload_fails ''bytes'' = Inr ''a,b''"
    by (simp_all add: world_upload_fails_def world_ok_def)
  show ?thesis
    using temporary_files_removed_on_success
      [of world_ok "''https://host/r/report.json.gz?sig=1''" "''.gz''"
          "[''/tmp/keep'' \<mapsto> ''x'']"]
      temporary_files_removed_on_success
      [of world_upload_fails "''https://host/r/report.json.gz?sig=1''" "''.gz''"
          "[''/tmp/keep'' \<mapsto> ''x'']" "''bytes''" "''[{}]''" "''[{}]''" "''a,b''"]
      temporary_files_removed_on_success
      [of world_upload_fails "''https://host/r/report.orc;v=1?sig=1''" "''.orc''"
          "[''/tmp/keep'' \<mapsto> ''x'']" "''bytes''" _ _ _ "''a,b''"]
    by (simp add: fields example_extensions fetch_gz_example_succeeds fetch_gz_example_fails
          fetch_orc_example_fails temporary_files_gz_example)
qed

section \<open>Properties of the daily date ranges\<close>

text \<open>
  C10. When the start date and the end date are the same date string,
  \<^verbatim>\<open>make_api_calls_daily\<close> returns the empty list, so the loop of \<^verbatim>\<open>main\<close> calls
  \<^verbatim>\<open>process_report_config\<close> for no date range and no report job is submitted.
\<close>

theorem make_api_calls_daily_same_day:
  assumes "strptime s = Inr d"
  shows "make_api_calls_daily strptime strftime s s = Inr []
       \<and> main_date_loop strptime strftime process_report_config s s = (None, [])"
  using assms by (simp add: make_api_calls_daily_def main_date_loop_def)

theorem make_api_calls_daily_same_day_witness:
  "make_api_calls_daily (\<lambda>_. Inr 738886) (\<lambda>_. ''2024-01-01'') ''2024-01-01'' ''2024-01-01'' = Inr []
   \<and> main_date_loop (\<lambda>_. Inr 738886) (\<lambda>_. ''2024-01-01'') (\<lambda>_. Some (Exception ''submitted''))
        ''2024-01-01'' ''2024-01-01'' = (None, [])"
  using make_api_calls_daily_same_day
    [of "\<lambda>_. Inr 738886" "''2024-01-01''" 738886 "\<lambda>_. ''2024-01-01''" "\<lambda>_. Some (Exception ''submitted'')"]
  by simp

end
